theory Spec2Isabelle
  imports Complex_Main "HOL-Library.Sublist" "HOL-Library.Char_ord" "HOL-Library.List_Lexorder"
    "HOL-Library.Product_Lexorder" "HOL-Library.Multiset" "HOL-Library.AList"
begin

section \<open>Python helpers used by maestro.py\<close>

text \<open>
  \<^verbatim>\<open>str.replace(old, new)\<close>: every non-overlapping occurrence of \<open>old\<close>, found from the
  left, becomes \<open>new\<close>; with an empty \<open>old\<close>, \<open>new\<close> is put before every character and
  at the end.
\<close>

function replace :: "string \<Rightarrow> string \<Rightarrow> string \<Rightarrow> string" where
  "replace old new [] = (if old = [] then new else [])"
| "replace old new (c # cs) =
     (if old = [] then new @ c # replace old new cs
      else if prefix old (c # cs) then new @ replace old new (drop (length old) (c # cs))
      else c # replace old new cs)"
  by pat_completeness auto
termination
  by (relation "measure (\<lambda>(old, new, s). length s)") auto

subsection \<open>The work-tracking store\<close>

text \<open>
  A row of the control (counter) table. The table maps the stage key to its row.
\<close>

record counter =
  mycount :: int
  total_instances :: int
  end_date :: string
  errors :: int

type_synonym control_table = "string \<rightharpoonup> counter"

text \<open>
  Modelled from the spec: \<^verbatim>\<open>services.update_control_table\<close> is not part of the sources.
  The spec gives the counter table an atomic add-and-return \<^verbatim>\<open>update(id, delta, setFields) \<rightarrow> attrs\<close>.
  The update expression of \<^verbatim>\<open>next_step\<close> adds 1 to \<^verbatim>\<open>mycount\<close>, sets \<^verbatim>\<open>end_date\<close> and returns
  the updated attributes; on a key with no row the answer carries no attributes and the
  table is unchanged.
\<close>

definition update_mycount :: "control_table \<Rightarrow> string \<Rightarrow> string \<Rightarrow> control_table \<times> int option" where
  "update_mycount tbl key now =
     (case tbl key of
        None \<Rightarrow> (tbl, None)
      | Some row \<Rightarrow> (tbl(key \<mapsto> row\<lparr>mycount := mycount row + 1, end_date := now\<rparr>),
                    Some (mycount row + 1)))"

text \<open>
  The update expression of \<^verbatim>\<open>solo\<close> for an activity in error: \<^verbatim>\<open>ADD #errors :increment\<close>.
  DynamoDB's ADD creates the attribute (and the row) when it is missing.
\<close>

definition update_errors :: "control_table \<Rightarrow> string \<Rightarrow> control_table" where
  "update_errors tbl key =
     (case tbl key of
        None \<Rightarrow> tbl(key \<mapsto> \<lparr>mycount = 0, total_instances = 0, end_date = [], errors = 1\<rparr>)
      | Some row \<Rightarrow> tbl(key \<mapsto> row\<lparr>errors := errors row + 1\<rparr>))"

subsection \<open>Activities\<close>

text \<open>
  The part of the activity dictionary that \<^verbatim>\<open>get_key_to_controltable\<close>, \<^verbatim>\<open>solo\<close> and
  \<^verbatim>\<open>next_step\<close> read; the records of the stages below extend it. \<open>band\<close> is \<open>None\<close> when the
  dictionary has no key \<^verbatim>\<open>band\<close>: \<^verbatim>\<open>prepare_merge\<close> builds its activity without one and
  sets it at the top of its loop over the bands, so the activity that it stores for a
  period without scenes has a band only if an earlier period had scenes. The keys
  \<^verbatim>\<open>date\<close>, \<^verbatim>\<open>start\<close> and \<^verbatim>\<open>end\<close> are set wherever \<^verbatim>\<open>band\<close> is.
  \<open>bands_expressions\<close> holds the keys of the dictionary of that name
  (\<open>None\<close>: the key is absent or its value is \<^verbatim>\<open>None\<close>).
\<close>

record step_activity =
  action :: string
  dynamoKey :: string
  band :: "string option"
  date :: string
  start :: string
  end' :: string
  mystatus :: string
  totalInstancesToBeDone :: int
  bands_expressions :: "string list option"

text \<open>
  The exceptions of Python that the functions below can raise.
\<close>

datatype py_exception = AttributeError | KeyError | TypeError | IndexError | ZeroDivisionError
  | UnboundLocalError | OtherError

text \<open>
  \<^verbatim>\<open>get_key_to_controltable\<close>: \<^verbatim>\<open>activity['band']\<close> is read unless the action is
  \<^verbatim>\<open>publish\<close>, and raises \<^verbatim>\<open>KeyError\<close> when the key is absent.
\<close>

definition get_key_to_controltable :: "'a step_activity_scheme \<Rightarrow> py_exception + string" where
  "get_key_to_controltable activity =
     (let k0 = dynamoKey activity
      in if action activity \<noteq> ''publish''
         then (case band activity of
                 None \<Rightarrow> Inl KeyError
               | Some b \<Rightarrow>
                   (let k1 = replace b [] k0
                    in Inr (if action activity = ''merge''
                            then replace (date activity) (start activity @ end' activity) k1
                            else k1)))
         else Inr k0)"

text \<open>
  The child-stage fan-out that \<^verbatim>\<open>next_step\<close> calls. The three functions are long and
  touch other keys only; \<open>next_step\<close> returns which one it calls, if any.
  \<open>child_stage\<close> is the body of \<^verbatim>\<open>if mycount >= activity['totalInstancesToBeDone']\<close>.
\<close>

datatype fanout = Next_blend | Next_posblend | Next_publish

definition child_stage :: "'a step_activity_scheme \<Rightarrow> fanout option" where
  "child_stage activity =
     (if action activity = ''merge'' then Some Next_blend
      else if action activity = ''blend'' then
        (if (case bands_expressions activity of None \<Rightarrow> False
             | Some ks \<Rightarrow> ks \<noteq> [] \<and> length ks > 0)
         then Some Next_posblend else Some Next_publish)
      else if action activity = ''posblend'' then Some Next_publish
      else None)"

definition next_step ::
  "string \<Rightarrow> control_table \<Rightarrow> 'a step_activity_scheme
     \<Rightarrow> py_exception + control_table \<times> fanout option" where
  "next_step now tbl activity =
     (case get_key_to_controltable activity of
        Inl e \<Rightarrow> Inl e
      | Inr activitiesControlTableKey \<Rightarrow>
          (let (tbl', response) = update_mycount tbl activitiesControlTableKey now
           in case response of
                None \<Rightarrow> Inr (tbl', None)
              | Some mycount' \<Rightarrow>
                  Inr (tbl',
                       if mycount' \<ge> totalInstancesToBeDone activity then child_stage activity
                       else None)))"

text \<open>
  \<^verbatim>\<open>solo\<close>: every activity of the list is stored and its stage key computed; one that
  is \<^verbatim>\<open>DONE\<close> goes through \<open>next_step\<close>, one in \<^verbatim>\<open>ERROR\<close> adds 1 to the errors of its stage
  key. The result is the table and, for each activity in turn, the fan-out it caused, or
  the exception that ends the call. (The write to the activity table, \<^verbatim>\<open>put_activity\<close>, does
  not touch the counters.)
\<close>

fun solo ::
  "string \<Rightarrow> control_table \<Rightarrow> 'a step_activity_scheme list
     \<Rightarrow> py_exception + control_table \<times> fanout option list" where
  "solo now tbl [] = Inr (tbl, [])"
| "solo now tbl (activity # activitylist) =
     (case get_key_to_controltable activity of
        Inl e \<Rightarrow> Inl e
      | Inr activitiesControlTableKey \<Rightarrow>
          (case (if mystatus activity = ''DONE'' then next_step now tbl activity
                 else if mystatus activity = ''ERROR''
                   then Inr (update_errors tbl activitiesControlTableKey, None)
                 else Inr (tbl, None)) of
             Inl e \<Rightarrow> Inl e
           | Inr (tbl1, fired) \<Rightarrow>
               (case solo now tbl1 activitylist of
                  Inl e \<Rightarrow> Inl e
                | Inr (tbl2, rest) \<Rightarrow> Inr (tbl2, fired # rest))))"
section \<open>utils/scene\_parser.py: the Landsat scene-id parser\<close>

text \<open>
  A Python string is a sequence of Unicode code points; a code point is a natural number,
  and \<open>ustr\<close> gives the Python string of an ASCII text.
\<close>

type_synonym ustring = "nat list"

definition ustr :: "string \<Rightarrow> ustring" where
  "ustr s = map of_char s"

text \<open>
  The pattern of \<^verbatim>\<open>landsat\<close> is a sequence of literal characters and named groups, every
  group a fixed number of character classes (\<^verbatim>\<open>\w\<close> or \<^verbatim>\<open>[0-9]\<close>), so matching needs no
  backtracking. The pattern is a \<^verbatim>\<open>str\<close>, so \<^verbatim>\<open>\w\<close> is the Unicode class: an alphanumeric
  character (\<^verbatim>\<open>str.isalnum\<close>) or the underscore. In ASCII the alphanumeric characters are
  the letters and the digits; above ASCII they are given by the Unicode database of the
  interpreter, which is the parameter \<open>isalnum\<close> of the functions below. The pattern is
  compiled with \<^verbatim>\<open>re.IGNORECASE\<close>: a literal matches the characters with the same lower
  case, which for \<^verbatim>\<open>L\<close> are \<^verbatim>\<open>L\<close> and \<^verbatim>\<open>l\<close> and for \<^verbatim>\<open>_\<close> is \<^verbatim>\<open>_\<close> alone; the class \<^verbatim>\<open>[0-9]\<close>
  holds the ten ASCII digits with or without the flag.
\<close>

datatype cls = Word | Digit

datatype token = Lit char | Group string "cls list"

definition is_digit :: "nat \<Rightarrow> bool" where
  "is_digit c = (48 \<le> c \<and> c \<le> 57)"

definition is_upper :: "nat \<Rightarrow> bool" where
  "is_upper c = (65 \<le> c \<and> c \<le> 90)"

definition is_lower :: "nat \<Rightarrow> bool" where
  "is_lower c = (97 \<le> c \<and> c \<le> 122)"

definition is_word :: "(nat \<Rightarrow> bool) \<Rightarrow> nat \<Rightarrow> bool" where
  "is_word isalnum c =
     (if c < 128 then is_upper c \<or> is_lower c \<or> is_digit c \<or> c = 95 else isalnum c)"

text \<open>
  The lower case of an ASCII character, and the test of a literal of the pattern (an
  ASCII character) under \<^verbatim>\<open>re.IGNORECASE\<close>. No character above ASCII has the lower case
  \<^verbatim>\<open>l\<close> or \<^verbatim>\<open>_\<close>, the lower cases of the literals of the pattern.
\<close>

definition lower :: "nat \<Rightarrow> nat" where
  "lower c = (if is_upper c then c + 32 else c)"

definition match_lit :: "char \<Rightarrow> nat \<Rightarrow> bool" where
  "match_lit l c = (c < 128 \<and> lower c = lower (of_char l))"

fun match_cls :: "(nat \<Rightarrow> bool) \<Rightarrow> cls \<Rightarrow> nat \<Rightarrow> bool" where
  "match_cls isalnum Word c = is_word isalnum c"
| "match_cls isalnum Digit c = is_digit c"

fun match_seq :: "(nat \<Rightarrow> bool) \<Rightarrow> cls list \<Rightarrow> ustring \<Rightarrow> (ustring \<times> ustring) option" where
  "match_seq isalnum [] s = Some ([], s)"
| "match_seq isalnum (k # ks) [] = None"
| "match_seq isalnum (k # ks) (c # cs) =
     (if match_cls isalnum k c
      then (case match_seq isalnum ks cs of None \<Rightarrow> None | Some (m, r) \<Rightarrow> Some (c # m, r))
      else None)"

fun match_tokens ::
  "(nat \<Rightarrow> bool) \<Rightarrow> token list \<Rightarrow> ustring \<Rightarrow> ((string \<times> ustring) list \<times> ustring) option" where
  "match_tokens isalnum [] s = Some ([], s)"
| "match_tokens isalnum (Lit l # ts) [] = None"
| "match_tokens isalnum (Lit l # ts) (c # cs) =
     (if match_lit l c then match_tokens isalnum ts cs else None)"
| "match_tokens isalnum (Group name ks # ts) s =
     (case match_seq isalnum ks s of
        None \<Rightarrow> None
      | Some (m, r) \<Rightarrow>
          (case match_tokens isalnum ts r of
             None \<Rightarrow> None
           | Some (gs, r') \<Rightarrow> Some ((name, m) # gs, r')))"

text \<open>
  \<^verbatim>\<open>re.match(pattern, scene_id, re.IGNORECASE).groupdict()\<close> for a pattern between \<^verbatim>\<open>^\<close> and
  \<^verbatim>\<open>$\<close>: the match starts at the first character, and \<^verbatim>\<open>$\<close> accepts the end of the
  string or a single newline before it. \<open>None\<close> is Python's \<^verbatim>\<open>None\<close>.
\<close>

definition re_match ::
  "(nat \<Rightarrow> bool) \<Rightarrow> token list \<Rightarrow> ustring \<Rightarrow> (string \<times> ustring) list option" where
  "re_match isalnum pat s =
     (case match_tokens isalnum pat s of
        None \<Rightarrow> None
      | Some (gs, r) \<Rightarrow> if r = [] \<or> r = [10] then Some gs else None)"

definition landsat_pattern :: "token list" where
  "landsat_pattern =
     [Lit CHR ''L'',
      Group ''sensor'' [Word],
      Group ''satellite'' [Word, Word],
      Lit CHR ''_'',
      Group ''processingCorrectionLevel'' [Word, Word, Word, Word],
      Lit CHR ''_'',
      Group ''path'' [Digit, Digit, Digit],
      Group ''row'' [Digit, Digit, Digit],
      Lit CHR ''_'',
      Group ''acquisitionYear'' [Digit, Digit, Digit, Digit],
      Group ''acquisitionMonth'' [Digit, Digit],
      Group ''acquisitionDay'' [Digit, Digit],
      Lit CHR ''_'',
      Group ''processingYear'' [Digit, Digit, Digit, Digit],
      Group ''processingMonth'' [Digit, Digit],
      Group ''processingDay'' [Digit, Digit],
      Lit CHR ''_'',
      Group ''collectionNumber'' [Word, Word],
      Lit CHR ''_'',
      Group ''collectionCategory'' [Word, Word]]"

definition instruments :: "(ustring \<times> ustring) list" where
  "instruments = [(ustr ''05'', ustr ''tm''), (ustr ''07'', ustr ''etm''),
                  (ustr ''08'', ustr ''oli-tirs'')]"

text \<open>
  \<^verbatim>\<open>dict(scene_id=scene_id, **meta, **args)\<close>: a keyword given twice is a \<^verbatim>\<open>TypeError\<close>.
  Dictionaries are association lists in insertion order; the keys are identifiers and the
  values of \<open>args\<close> are strings.
\<close>

definition py_dict :: "(string \<times> ustring) list \<Rightarrow> py_exception + (string \<times> ustring) list" where
  "py_dict kvs = (if distinct (map fst kvs) then Inr kvs else Inl TypeError)"

definition landsat ::
  "(nat \<Rightarrow> bool) \<Rightarrow> ustring \<Rightarrow> (string \<times> ustring) list
     \<Rightarrow> py_exception + (string \<times> ustring) list" where
  "landsat isalnum scene_id args =
     (case re_match isalnum landsat_pattern scene_id of
        None \<Rightarrow> Inl AttributeError
      | Some meta \<Rightarrow>
          (case map_of meta ''satellite'' of
             None \<Rightarrow> Inl KeyError
           | Some satellite \<Rightarrow>
               (case map_of instruments satellite of
                  None \<Rightarrow> Inl KeyError
                | Some instrument \<Rightarrow>
                    py_dict ((''scene_id'', scene_id) # (meta @ [(''instrument'', instrument)]) @ args))))"

section \<open>Activities of the cube stages\<close>

text \<open>
  More Python helpers: \<^verbatim>\<open>s.split(sep)\<close> for a separator of one character,
  \<^verbatim>\<open>sep.join(words)\<close>, \<^verbatim>\<open>os.path.join\<close> and \<^verbatim>\<open>os.path.basename\<close> (POSIX).
\<close>

fun py_split :: "char \<Rightarrow> string \<Rightarrow> string list" where
  "py_split sep [] = [[]]"
| "py_split sep (c # cs) =
     (if c = sep then [] # py_split sep cs
      else (case py_split sep cs of [] \<Rightarrow> [[c]] | w # ws \<Rightarrow> (c # w) # ws))"

fun py_join :: "string \<Rightarrow> string list \<Rightarrow> string" where
  "py_join sep [] = []"
| "py_join sep [w] = w"
| "py_join sep (w # ws) = w @ sep @ py_join sep ws"

definition path_join2 :: "string \<Rightarrow> string \<Rightarrow> string" where
  "path_join2 a b =
     (if b \<noteq> [] \<and> hd b = CHR ''/'' then b
      else if a = [] \<or> last a = CHR ''/'' then a @ b
      else a @ ''/'' @ b)"

definition path_join :: "string \<Rightarrow> string list \<Rightarrow> string" where
  "path_join a ps = foldl path_join2 a ps"

definition basename :: "string \<Rightarrow> string" where
  "basename p = last (py_split CHR ''/'' p)"

text \<open>
  The mask description of a cube: the values of the quality band by category.
\<close>

record mask_desc =
  mask_nodata :: int
  clear_data :: "int list"
  not_clear_data :: "int list"
  saturated_data :: "int list"

text \<open>
  The activity dictionary of MERGE and BLEND, beyond the part that \<open>next_step\<close> reads.
  \<open>efficacy\<close> and \<open>cloudratio\<close> are numbers that the code keeps as text (\<^verbatim>\<open>str(efficacy)\<close>);
  the model keeps the numbers, and takes floating-point values as reals. The time
  stamps \<^verbatim>\<open>mystart\<close>, \<^verbatim>\<open>myend\<close> and \<^verbatim>\<open>mylaunch\<close> and the fields that are only carried along
  are left out. \<open>nodata\<close> is \<open>None\<close> when the key is absent. \<open>activity_errors\<close> is the
  \<^verbatim>\<open>step\<close> of the \<^verbatim>\<open>errors\<close> entry, when there is one.
\<close>

record cube_activity = step_activity +
  sk :: string
  datacube :: string
  irregular_datacube :: string
  version :: string
  satellite :: string
  tileid :: string
  dirname :: string
  bucket_name :: string
  bands :: "string list"
  internal_bands :: "string list"
  functions' :: "string list"
  quality_band :: string
  nodata :: "int option"
  activity_mask :: mask_desc
  force :: bool
  efficacy :: real
  cloudratio :: real
  activity_errors :: "string option"
  instancesToBeDone :: int
  list_dates :: "string list"

section \<open>BLEND preparation: \<open>fill_blend\<close>\<close>

text \<open>
  A record of the activity table as \<^verbatim>\<open>fill_blend\<close> reads it: the sort key, the status, the
  efficacy and cloud ratio, and from the stored activity (\<^verbatim>\<open>json.loads(item['activity'])\<close>)
  the date, the dataset, the satellite and the output file.
\<close>

record item =
  item_sk :: string
  item_mystatus :: string
  item_efficacy :: real
  item_cloudratio :: real
  item_date :: string
  item_dataset :: string
  item_satellite :: string
  item_ARDfile :: string

text \<open>
  Modelled from the spec: \<^verbatim>\<open>encode_key\<close> of utils/processing.py is not part of the sources.
  The spec builds the keys by concatenation:
  \<^verbatim>\<open>dynamoKey = action + irregular_datacube|datacube + tileid + (date|start+end) + band?\<close>.
\<close>

definition encode_key :: "string list \<Rightarrow> string" where
  "encode_key vals = concat vals"

text \<open>
  The name \<^verbatim>\<open>func\<close> that \<^verbatim>\<open>fill_blend\<close> compares with \<^verbatim>\<open>'IDT'\<close> is not the loop variable
  (that one is \<^verbatim>\<open>function\<close>): it is the module-level import
  \<^verbatim>\<open>from geoalchemy2 import func\<close>, an object that is no string.
\<close>

datatype py_value = Str string | Function_generator

definition func :: py_value where
  "func = Function_generator"

section \<open>BLEND\<close>

text \<open>
  A scene of \<^verbatim>\<open>blendactivity['scenes']\<close>, keyed by its date reference. The dictionary of
  scenes and the dictionary \<^verbatim>\<open>ARDfiles\<close> (band to file name) are association lists in
  insertion order. \<open>files\<close> holds the entries \<^verbatim>\<open>'{func}file'\<close> of the activity.
\<close>

record scene =
  scene_efficacy :: real
  scene_date :: string
  scene_dataset :: string
  scene_satellite :: string
  scene_cloudratio :: real
  ARDfiles :: "(string \<times> string) list"

record blend_activity = cube_activity +
  scenes :: "(string \<times> scene) list"
  files :: "(string \<times> string) list"
  internal_band :: "string option"

subsection \<open>The order of the scenes\<close>

text \<open>
  \<^verbatim>\<open>mask_tuples.append((100. * efficacy / resolution, key))\<close> with \<^verbatim>\<open>resolution = 10\<close>, then
  \<^verbatim>\<open>sorted(mask_tuples, reverse=True)\<close>. The score is computed in floating point:
  \<open>score e\<close> stands for the double that \<^verbatim>\<open>100. * e / 10\<close> evaluates to for the efficacy
  \<open>e\<close>, and is a parameter, the arithmetic of the doubles being outside the model; a score
  is a number (no NaN). Two efficacies may have the same score. Python compares the tuples lexicographically, the
  keys as strings; the keys of a dictionary are distinct, so no two tuples are equal and
  the descending sort is the reversed ascending sort.
\<close>

definition mask_tuples :: "(real \<Rightarrow> real) \<Rightarrow> (string \<times> scene) list \<Rightarrow> (real \<times> string) list" where
  "mask_tuples score scs = map (\<lambda>(key, scene). (score (scene_efficacy scene), key)) scs"

definition sorted_reverse :: "(real \<times> string) list \<Rightarrow> (real \<times> string) list" where
  "sorted_reverse ts = rev (sort ts)"

subsection \<open>The composition of one window\<close>

text \<open>
  The state of one pixel while the scenes are read: the value of the arrays
  \<^verbatim>\<open>stack_raster\<close>, \<^verbatim>\<open>provenance_array\<close>, \<^verbatim>\<open>stack_total_observation\<close> and \<^verbatim>\<open>notdonemask\<close> at that
  pixel, and the column of \<^verbatim>\<open>stackMA\<close> over it (\<open>None\<close>: the entry is masked). Pixel values
  are integers, taken to fit the types of the arrays that hold them.
\<close>

record pixel =
  stack_raster :: int
  provenance_array :: int
  stack_total_observation :: int
  notdonemask :: bool
  stackMA :: "int option list"

text \<open>
  The four assignments that reclassify the quality value of a pixel: not clear and
  saturated values become 0, a pixel without data becomes 0, clear values become 1.
\<close>

definition reclass :: "mask_desc \<Rightarrow> int \<Rightarrow> int \<Rightarrow> int \<Rightarrow> int" where
  "reclass am nd raster mask0 =
     (let m1 = (if mask0 \<in> set (not_clear_data am) then 0 else mask0);
          m2 = (if m1 \<in> set (saturated_data am) then 0 else m1);
          m3 = (if raster = nd then 0 else m2);
          m4 = (if m3 \<in> set (clear_data am) then 1 else m3)
      in m4)"

text \<open>
  One scene at one pixel (the body of \<^verbatim>\<open>for order in range(numscenes)\<close>). \<open>bp\<close> and \<open>bt\<close>
  are \<^verbatim>\<open>build_provenance\<close> and \<^verbatim>\<open>build_total_observation\<close>; the total is a \<^verbatim>\<open>uint8\<close>.
\<close>

definition blend_pixel ::
  "mask_desc \<Rightarrow> int \<Rightarrow> bool \<Rightarrow> bool \<Rightarrow> int \<Rightarrow> pixel \<Rightarrow> int \<times> int \<Rightarrow> pixel" where
  "blend_pixel am nd bp bt day_of_year p rm =
     (let raster = fst rm;
          mask1 = reclass am nd raster (snd rm);
          bmask = \<not> (mask1 \<noteq> 0);
          total1 = (if bt then (stack_total_observation p + (if raster \<noteq> nd then 1 else 0)) mod 256
                    else stack_total_observation p);
          intersect = (stack_raster p = nd \<and> raster \<noteq> nd);
          stack1 = (if intersect then raster else stack_raster p);
          prov1 = (if intersect \<and> bp then day_of_year else provenance_array p);
          todomask = (notdonemask p \<and> \<not> bmask);
          clear_not_done = (todomask \<and> mask1 \<noteq> 0);
          stack2 = (if clear_not_done then raster else stack1);
          prov2 = (if clear_not_done \<and> bp then day_of_year else prov1)
      in \<lparr>stack_raster = stack2, provenance_array = prov2, stack_total_observation = total1,
          notdonemask = (notdonemask p \<and> bmask),
          stackMA = stackMA p @ [if bmask then None else Some raster]\<rparr>)"

text \<open>
  A scene as the loop reads it: its day of year, its band raster and its quality raster,
  as lists of pixels. The block windows partition the raster and every step works pixel
  by pixel, so the raster is taken as one window.
\<close>

type_synonym scene_window = "int \<times> int list \<times> int list"

definition blend_scene ::
  "mask_desc \<Rightarrow> int \<Rightarrow> bool \<Rightarrow> bool \<Rightarrow> pixel list \<Rightarrow> scene_window \<Rightarrow> pixel list" where
  "blend_scene am nd bp bt ps sw =
     (case sw of (day_of_year, raster, mask0) \<Rightarrow>
        map (\<lambda>(p, rm). blend_pixel am nd bp bt day_of_year p rm) (zip ps (zip raster mask0)))"

definition pixel0 :: "int \<Rightarrow> pixel" where
  "pixel0 nd = \<lparr>stack_raster = nd, provenance_array = - 1, stack_total_observation = 0,
                 notdonemask = True, stackMA = []\<rparr>"

definition blend_window ::
  "mask_desc \<Rightarrow> int \<Rightarrow> bool \<Rightarrow> bool \<Rightarrow> nat \<Rightarrow> scene_window list \<Rightarrow> pixel list" where
  "blend_window am nd bp bt n sws = foldl (blend_scene am nd bp bt) (replicate n (pixel0 nd)) sws"

text \<open>
  The median raster and the count of clear observations of a pixel. \<open>median\<close> stands for
  \<^verbatim>\<open>numpy.ma.median\<close> over the entries that are not masked, cast to the type of the raster.
  Modelled from the spec: the data type of the count, \<^verbatim>\<open>CLEAR_OBSERVATION_ATTRIBUTES\<close> of
  constants.py, is not part of the sources; the spec has the count written as \<^verbatim>\<open>uint8\<close>.
\<close>

definition median_raster :: "(int list \<Rightarrow> int) \<Rightarrow> int \<Rightarrow> pixel \<Rightarrow> int" where
  "median_raster median nd p =
     (if notdonemask p then nd else median (concat (map (\<lambda>v. case v of None \<Rightarrow> [] | Some x \<Rightarrow> [x]) (stackMA p))))"

definition count_raster :: "pixel \<Rightarrow> int" where
  "count_raster p = int (length (filter (\<lambda>v. v \<noteq> None) (stackMA p))) mod 256"

subsection \<open>The BLEND worker\<close>

text \<open>
  What \<^verbatim>\<open>blend\<close> needs from outside: the prefix of the bucket, the first band of a raster
  file (\<open>None\<close>: \<^verbatim>\<open>rasterio.open\<close> raises), the day of the year of a date text
  (\<open>None\<close>: \<^verbatim>\<open>strptime\<close> raises), the median of numpy, \<^verbatim>\<open>qa_statistics\<close>, and the
  floating-point score \<^verbatim>\<open>100. * efficacy / resolution\<close> of an efficacy. What it does
  to the outside: the rasters it writes with \<^verbatim>\<open>create_cog_in_s3\<close> (profile, key, raster, the
  flag and the nodata argument), the count raster it uploads, the files it deletes, the
  activity it stores; for the preparation of a stage also the activity it sends to the
  queue and the fan-out that a call of \<open>next_step\<close> starts. Of a raster profile the model keeps the data type and the nodata
  value. Writes and uploads are taken to succeed.
\<close>

record profile =
  dtype :: string
  profile_nodata :: "int option"

record blend_env =
  s3_prefix :: string
  read_band :: "string \<Rightarrow> int list option"
  read_profile :: "string \<Rightarrow> profile"
  tm_yday :: "string \<Rightarrow> int option"
  np_median :: "int list \<Rightarrow> int"
  qa_statistics :: "int list \<Rightarrow> mask_desc \<Rightarrow> real \<times> real"
  float_score :: "real \<Rightarrow> real"

datatype 'a event =
    Create_cog "profile option" string "int list" bool "int option"
  | Upload_file string "int list"
  | Delete_file string
  | Put_item_kinesis 'a
  | Send_to_sqs 'a
  | Fan_out fanout

text \<open>
  \<^verbatim>\<open>nodata = int(activity.get('nodata', -9999))\<close>, replaced by the nodata of the mask for
  the quality band. (\<^verbatim>\<open>blend\<close> has read the band of the activity before.)
\<close>

definition blend_nodata :: "'a cube_activity_scheme \<Rightarrow> int" where
  "blend_nodata activity =
     (let nd = (case nodata activity of None \<Rightarrow> - 9999 | Some v \<Rightarrow> v)
      in if band activity = Some (quality_band activity) then mask_nodata (activity_mask activity)
         else nd)"

definition blend_error :: "blend_activity \<Rightarrow> blend_activity \<times> blend_activity event list" where
  "blend_error activity =
     (let a = activity\<lparr>mystatus := ''ERROR'', activity_errors := Some ''blend''\<rparr>
      in (a, [Put_item_kinesis a]))"

text \<open>
  The loop that opens, for every tuple in order, the quality file and the band file of the
  scene; \<open>None\<close> when a file name is missing or a file cannot be opened. The result keeps
  \<^verbatim>\<open>key[:10]\<close> with the quality raster and the band raster. \<open>b\<close> is the variable \<^verbatim>\<open>band\<close>
  of \<^verbatim>\<open>blend\<close>, the band of the activity.
\<close>

fun open_scenes ::
  "'e blend_env_scheme \<Rightarrow> blend_activity \<Rightarrow> string \<Rightarrow> (real \<times> string) list
     \<Rightarrow> (string \<times> int list \<times> int list) list option" where
  "open_scenes env activity b [] = Some []"
| "open_scenes env activity b (m # ms) =
     (case map_of (scenes activity) (snd m) of
        None \<Rightarrow> None
      | Some scene \<Rightarrow>
          (case map_of (ARDfiles scene) (quality_band activity) of
             None \<Rightarrow> None
           | Some qfile \<Rightarrow>
               (case read_band env
                       (path_join (s3_prefix env @ dirname activity) [scene_date scene, qfile]) of
                  None \<Rightarrow> None
                | Some mask0 \<Rightarrow>
                    (case map_of (ARDfiles scene) b of
                       None \<Rightarrow> None
                     | Some bfile \<Rightarrow>
                         (case read_band env
                                 (path_join (s3_prefix env @ dirname activity)
                                    [scene_date scene, bfile]) of
                            None \<Rightarrow> None
                          | Some raster \<Rightarrow>
                              (case open_scenes env activity b ms of
                                 None \<Rightarrow> None
                               | Some rest \<Rightarrow> Some ((take 10 (snd m), mask0, raster) # rest)))))))"

text \<open>
  The day of the year of every scene, computed in the PROVENANCE pass only (elsewhere the
  variable is not used; the model puts 0).
\<close>

fun scene_windows ::
  "'e blend_env_scheme \<Rightarrow> bool \<Rightarrow> (string \<times> int list \<times> int list) list \<Rightarrow> scene_window list option" where
  "scene_windows env bp [] = Some []"
| "scene_windows env bp ((dt, mask0, raster) # rest) =
     (case (if bp then tm_yday env dt else Some 0) of
        None \<Rightarrow> None
      | Some day_of_year \<Rightarrow>
          (case scene_windows env bp rest of
             None \<Rightarrow> None
           | Some sws \<Rightarrow> Some ((day_of_year, raster, mask0) # sws)))"

text \<open>
  \<^verbatim>\<open>'_'.join(name.split('_')[:-1])\<close>: the name up to its last underscore.
\<close>

definition stem :: "string \<Rightarrow> string" where
  "stem name = py_join ''_'' (butlast (py_split CHR ''_'' name))"

text \<open>
  The uploads after the loop, in the order of the code. Each step is the list of its
  events, or \<open>None\<close> when it raises (an entry \<^verbatim>\<open>'{func}file'\<close> is missing). The events of
  the steps before a step that raises have happened.
\<close>

fun run_steps :: "'a event list option list \<Rightarrow> 'a event list \<times> bool" where
  "run_steps [] = ([], True)"
| "run_steps (None # steps) = ([], False)"
| "run_steps (Some evs # steps) = (case run_steps steps of (evs', ok) \<Rightarrow> (evs @ evs', ok))"

definition blend_uploads ::
  "'e blend_env_scheme \<Rightarrow> blend_activity \<Rightarrow> profile \<Rightarrow> int \<Rightarrow> pixel list \<Rightarrow> blend_activity event list option list" where
  "blend_uploads env activity prof nd ps =
     (let build_total_observation = (internal_band activity = Some ''TOTALOB'');
          build_clear_observation = (internal_band activity = Some ''CLEAROB'');
          build_provenance = (internal_band activity = Some ''PROVENANCE'');
          internal = (case internal_band activity of None \<Rightarrow> False | Some ib \<Rightarrow> ib \<noteq> []);
          funcs = filter (\<lambda>func. func \<noteq> ''IDT'') (functions' activity);
          file = (\<lambda>func. map_of (files activity) (func @ ''file''))
      in (if build_clear_observation
          then map (\<lambda>func. case file func of None \<Rightarrow> None
                      | Some f \<Rightarrow> Some [Upload_file (stem f @ ''_CLEAROB.tif'') (map count_raster ps)])
                 funcs
          else []) @
         (if build_provenance \<and> ''STK'' \<in> set (functions' activity)
          then [case file ''STK'' of None \<Rightarrow> None
                | Some f \<Rightarrow> Some [Create_cog (Some \<lparr>dtype = ''int16'', profile_nodata = None\<rparr>)
                                      (stem f @ ''_PROVENANCE.tif'')
                                      (map provenance_array ps) False None]]
          else []) @
         (if build_total_observation
          then map (\<lambda>func. case file func of None \<Rightarrow> None
                      | Some f \<Rightarrow> Some [Create_cog (Some \<lparr>dtype = ''uint8'', profile_nodata = None\<rparr>)
                                            (stem f @ ''_TOTALOB.tif'')
                                            (map stack_total_observation ps) False None])
                 funcs
          else []) @
         (if ''STK'' \<in> set (functions' activity) \<and> \<not> internal
          then [case file ''STK'' of None \<Rightarrow> None
                | Some f \<Rightarrow> Some [Create_cog (Some prof) f (map stack_raster ps)
                                      (band activity \<noteq> Some (quality_band activity)) (Some nd)]]
          else []) @
         (if ''MED'' \<in> set (functions' activity) \<and> \<not> internal
          then [case file ''MED'' of None \<Rightarrow> None
                | Some f \<Rightarrow> Some [Create_cog (Some prof) f (map (median_raster (np_median env) nd) ps)
                                      (band activity \<noteq> Some (quality_band activity)) (Some nd)]]
          else []))"

text \<open>
  The body of the \<^verbatim>\<open>try\<close> up to the end of the window loop: the profile of the first
  file and the pixels of the window, or \<open>None\<close> when something raises. The first scene of the dictionary gives the size of the
  raster; the rasters of all scenes are taken to have that size (a raster of another size
  is treated as an error).
\<close>

definition blend_pixels ::
  "'e blend_env_scheme \<Rightarrow> blend_activity \<Rightarrow> string \<Rightarrow> int \<Rightarrow> (profile \<times> pixel list) option" where
  "blend_pixels env activity b nd =
     (case scenes activity of
        [] \<Rightarrow> None
      | (key0, scene0) # _ \<Rightarrow>
          (case map_of (ARDfiles scene0) b of
             None \<Rightarrow> None
           | Some file0 \<Rightarrow>
               (case read_band env
                       (path_join (s3_prefix env @ dirname activity) [scene_date scene0, file0]) of
                  None \<Rightarrow> None
                | Some raster0 \<Rightarrow>
                    (case open_scenes env activity b
                            (sorted_reverse (mask_tuples (float_score env) (scenes activity))) of
                       None \<Rightarrow> None
                     | Some opened \<Rightarrow>
                         (case scene_windows env (internal_band activity = Some ''PROVENANCE'') opened of
                            None \<Rightarrow> None
                          | Some sws \<Rightarrow>
                              if \<forall>sw\<in>set sws. length (fst (snd sw)) = length raster0
                                                \<and> length (snd (snd sw)) = length raster0
                              then Some (read_profile env
                                           (path_join (s3_prefix env @ dirname activity)
                                              [scene_date scene0, file0]),
                                         blend_window (activity_mask activity) nd
                                           (internal_band activity = Some ''PROVENANCE'')
                                           (internal_band activity = Some ''TOTALOB'')
                                           (length raster0) sws)
                              else None)))))"

text \<open>
  \<^verbatim>\<open>blend\<close>. The band of the activity is read before the \<^verbatim>\<open>try\<close>: an activity without a
  band raises \<^verbatim>\<open>KeyError\<close>. Otherwise the result is the activity as stored at the end and
  the events in order.
\<close>

definition blend ::
  "'e blend_env_scheme \<Rightarrow> blend_activity
     \<Rightarrow> py_exception + blend_activity \<times> blend_activity event list" where
  "blend env activity0 =
     (case band activity0 of
        None \<Rightarrow> Inl KeyError
      | Some b \<Rightarrow>
          Inr
           (let activity = activity0\<lparr>sk := (case internal_band activity0 of
                                               None \<Rightarrow> b
                                             | Some ib \<Rightarrow> if ib = [] then b else ib)\<rparr>;
                nd = blend_nodata activity
            in if \<exists>sc\<in>set (scenes activity). b \<notin> fst ` set (ARDfiles (snd sc))
               then blend_error activity
               else
                 (case blend_pixels env activity b nd of
                    None \<Rightarrow> blend_error activity
                  | Some (prof, ps) \<Rightarrow>
                      (let activity1 =
                             (if quality_band activity = b
                              then (case qa_statistics env (map stack_raster ps) (activity_mask activity) of
                                      (e, c) \<Rightarrow> activity\<lparr>efficacy := e, cloudratio := c\<rparr>)
                              else activity)
                       in case run_steps (blend_uploads env activity1 prof nd ps) of
                            (evs, ok) \<Rightarrow>
                              if ok
                              then (let a = activity1\<lparr>mystatus := ''DONE''\<rparr>
                                    in (a, evs @ [Put_item_kinesis a]))
                              else (case blend_error activity1 of (a, evs') \<Rightarrow> (a, evs @ evs'))))))"

subsection \<open>\<open>fill_blend\<close>\<close>

text \<open>
  The first loop: the records of every date of \<^verbatim>\<open>list_dates\<close>; \<open>None\<close> when a date has no
  record (\<^verbatim>\<open>return False\<close>). \<open>get_activities_by_key\<close> is the query of the activity table
  (\<open>None\<close>: the answer has no \<^verbatim>\<open>Items\<close>). The key of a date is built from the band of the
  merge activity, and raises \<^verbatim>\<open>KeyError\<close> when there is none.
\<close>

fun query_items ::
  "(string \<Rightarrow> item list option) \<Rightarrow> 'a cube_activity_scheme \<Rightarrow> string list
     \<Rightarrow> py_exception + item list option" where
  "query_items get_activities_by_key mergeactivity [] = Inr (Some [])"
| "query_items get_activities_by_key mergeactivity (date_formated # dates) =
     (case band mergeactivity of
        None \<Rightarrow> Inl KeyError
      | Some mb \<Rightarrow>
          (case get_activities_by_key
                  (encode_key [action mergeactivity, irregular_datacube mergeactivity,
                               tileid mergeactivity, date_formated, mb]) of
             None \<Rightarrow> Inr None
           | Some its \<Rightarrow>
               if length its = 0 then Inr None
               else (case query_items get_activities_by_key mergeactivity dates of
                       Inl e \<Rightarrow> Inl e
                     | Inr None \<Rightarrow> Inr None
                     | Inr (Some rest) \<Rightarrow> Inr (Some (its @ rest)))))"

text \<open>
  The second loop: every record must be \<^verbatim>\<open>DONE\<close>; its scene is created when the date
  reference is new, and the file name of the band is stored in its \<^verbatim>\<open>ARDfiles\<close>. The
  result is the dictionary of scenes and whether the loop came to its end.
\<close>

fun fill_scenes :: "string \<Rightarrow> (string \<times> scene) list \<Rightarrow> item list \<Rightarrow> (string \<times> scene) list \<times> bool" where
  "fill_scenes b scs [] = (scs, True)"
| "fill_scenes b scs (it # its) =
     (if item_mystatus it \<noteq> ''DONE'' then (scs, False)
      else
        (let date_ref = item_sk it;
             scene0 = (case map_of scs date_ref of
                         Some sc \<Rightarrow> sc
                       | None \<Rightarrow> \<lparr>scene_efficacy = item_efficacy it, scene_date = item_date it,
                                   scene_dataset = item_dataset it,
                                   scene_satellite = item_satellite it,
                                   scene_cloudratio = item_cloudratio it, ARDfiles = []\<rparr>);
             scene1 = scene0\<lparr>ARDfiles := AList.update b (basename (item_ARDfile it)) (ARDfiles scene0)\<rparr>
         in fill_scenes b (AList.update date_ref scene1 scs) its))"

text \<open>
  The path of an output of the band \<open>b\<close> (the variable \<^verbatim>\<open>band\<close> of \<^verbatim>\<open>fill_blend\<close>).
\<close>

definition blend_file :: "blend_activity \<Rightarrow> string \<Rightarrow> string \<Rightarrow> string" where
  "blend_file blendactivity b function =
     (let cube_id = stem (datacube blendactivity) @ ''_'' @ function
      in cube_id @ ''/'' @ version blendactivity @ ''/'' @ tileid blendactivity @ ''/'' @
         start blendactivity @ ''_'' @ end' blendactivity @ ''/'' @
         cube_id @ ''_'' @ version blendactivity @ ''_'' @ tileid blendactivity @ ''_'' @
         start blendactivity @ ''_'' @ end' blendactivity @ ''_'' @ b @ ''.tif'')"

text \<open>
  The loop over the functions of a band that is not the quality band. The test is
  \<^verbatim>\<open>if func == 'IDT': continue\<close>, on the imported object, for every function.
\<close>

fun fill_files :: "blend_activity \<Rightarrow> string \<Rightarrow> string list \<Rightarrow> blend_activity" where
  "fill_files blendactivity b [] = blendactivity"
| "fill_files blendactivity b (function # fs) =
     (if func = Str ''IDT'' then fill_files blendactivity b fs
      else fill_files
             (blendactivity\<lparr>files := AList.update (function @ ''file'')
                                        (blend_file blendactivity b function) (files blendactivity)\<rparr>)
             b fs)"

text \<open>
  \<^verbatim>\<open>fill_blend\<close>: whether the blend activity could be filled, with the activity as the
  function leaves it; \<^verbatim>\<open>KeyError\<close> when the blend activity has no band, or the merge
  activity has none and there is a date to look up.
\<close>

definition fill_blend ::
  "(string \<Rightarrow> item list option) \<Rightarrow> 'a cube_activity_scheme \<Rightarrow> blend_activity \<Rightarrow> string option
     \<Rightarrow> py_exception + bool \<times> blend_activity" where
  "fill_blend get_activities_by_key mergeactivity blendactivity0 internal =
     (case band blendactivity0 of
        None \<Rightarrow> Inl KeyError
      | Some b \<Rightarrow>
     (let blendactivity1 = blendactivity0\<lparr>instancesToBeDone := 0\<rparr>;
          blendactivity2 =
            (if internal \<noteq> None \<and> internal \<noteq> Some [] \<and> list_dates mergeactivity \<noteq> []
             then blendactivity1\<lparr>internal_band := internal\<rparr> else blendactivity1)
      in case query_items get_activities_by_key mergeactivity (list_dates mergeactivity) of
           Inl e \<Rightarrow> Inl e
         | Inr None \<Rightarrow> Inr (False, blendactivity2)
         | Inr (Some its) \<Rightarrow>
             (case fill_scenes b (scenes blendactivity2) its of
                (scs, ok) \<Rightarrow>
                  (let blendactivity3 = blendactivity2\<lparr>scenes := scs\<rparr>
                   in if \<not> ok then Inr (False, blendactivity3)
                      else
                        (let blendactivity4 =
                               blendactivity3\<lparr>instancesToBeDone :=
                                  instancesToBeDone blendactivity3 + int (length its)\<rparr>
                         in if b \<noteq> quality_band blendactivity4
                            then Inr (True, fill_files blendactivity4 b (functions' blendactivity4))
                            else Inr (True,
                                      blendactivity4\<lparr>files :=
                                         AList.update ''STKfile'' (blend_file blendactivity4 b ''STK'')
                                           (files blendactivity4)\<rparr>))))))"

section \<open>MERGE\<close>

text \<open>
  The merge activity: the cube activity and the fields of one (band, dataset, date).
  \<open>shape\<close> and \<open>source_nodata\<close> are \<open>None\<close> when the key is absent; the new resolutions are
  stored as numbers.
\<close>

record merge_activity = cube_activity +
  dataset :: string
  ARDfile :: string
  links :: "string list"
  source_nodata :: "int option"
  shape :: "int list option"
  resx :: real
  resy :: real
  xmin :: real
  ymax :: real
  dist_x :: real
  dist_y :: real
  new_resolution_x :: "real option"
  new_resolution_y :: "real option"

text \<open>
  A source asset as \<^verbatim>\<open>merge_warped\<close> uses it: the nodata value and the data type of its
  profile, its first band as read (\<^verbatim>\<open>src.read(1)\<close>, used with a shape), and its first
  band as warped by \<^verbatim>\<open>reproject\<close> onto the grid of the tile, which depends on the nodata
  of the source, the nodata of the destination and the resampling (\<open>True\<close>: nearest,
  \<open>False\<close>: bilinear).
\<close>

record source =
  src_nodata :: "int option"
  src_dtype :: string
  src_read :: "int list"
  src_reproject :: "int \<Rightarrow> int \<Rightarrow> bool \<Rightarrow> int list"

text \<open>
  What \<^verbatim>\<open>merge_warped\<close> needs from outside, beyond what \<^verbatim>\<open>blend\<close> needs: whether an object
  exists in the bucket, the source behind a link (\<open>None\<close>: \<^verbatim>\<open>rasterio.open\<close> raises), and
  \<^verbatim>\<open>getMask\<close>, which returns the classified raster, the efficacy and the cloud ratio.
\<close>

record merge_env = blend_env +
  s3_file_exists :: "string \<Rightarrow> bool"
  open_source :: "string \<Rightarrow> source option"
  getMask :: "int list \<Rightarrow> mask_desc \<Rightarrow> int list \<times> real \<times> real"

text \<open>
  Python's \<^verbatim>\<open>round\<close> of a float: to the nearest integer, a tie to the even one.
\<close>

definition py_round :: "real \<Rightarrow> int" where
  "py_round x =
     (let f = \<lfloor>x\<rfloor>; d = x - of_int f
      in if d < 1 / 2 then f else if 1 / 2 < d then f + 1 else if even f then f else f + 1)"

text \<open>
  The target grid: the numbers of pixels and, without a shape, the new resolutions
  (with a shape \<^verbatim>\<open>new_res_x\<close> and \<^verbatim>\<open>new_res_y\<close> are never bound: \<open>None\<close>).
  A division by zero and a shape of fewer than two numbers raise.
\<close>

definition target_grid :: "merge_activity \<Rightarrow> py_exception + (int \<times> int \<times> (real \<times> real) option)" where
  "target_grid activity =
     (case shape activity of
        Some (x # y # _) \<Rightarrow> Inr (x, y, None)
      | Some [x] \<Rightarrow> Inl IndexError
      | _ \<Rightarrow>
          if resx activity = 0 \<or> resy activity = 0 then Inl ZeroDivisionError
          else
            (let num_pixel_x = py_round (dist_x activity / resx activity);
                 num_pixel_y = py_round (dist_y activity / resy activity)
             in if num_pixel_x = 0 \<or> num_pixel_y = 0 then Inl ZeroDivisionError
                else Inr (num_pixel_x, num_pixel_y,
                          Some (dist_x activity / of_int num_pixel_x,
                                dist_y activity / of_int num_pixel_y))))"

definition is_sentinel_landsat_quality_fmask :: "'a cube_activity_scheme \<Rightarrow> bool" where
  "is_sentinel_landsat_quality_fmask activity =
     ((sublist ''LANDSAT'' (satellite activity) \<or> satellite activity = ''SENTINEL-2'') \<and>
      (band activity = Some (quality_band activity) \<and> mask_nodata (activity_mask activity) \<noteq> 0))"

text \<open>
  The nodata value of the merged raster: the nodata of the mask for the quality band,
  \<^verbatim>\<open>int(activity['nodata'])\<close> for the other bands. \<^verbatim>\<open>nodata = int(activity['nodata'])\<close> and
  \<^verbatim>\<open>band = activity['band']\<close> raise \<^verbatim>\<open>KeyError\<close> when the key is absent.
\<close>

definition merge_nodata :: "'a cube_activity_scheme \<Rightarrow> py_exception + int" where
  "merge_nodata activity =
     (case nodata activity of
        None \<Rightarrow> Inl KeyError
      | Some nd \<Rightarrow>
          (case band activity of
             None \<Rightarrow> Inl KeyError
           | Some b \<Rightarrow>
               Inr (if b = quality_band activity then mask_nodata (activity_mask activity)
                    else nd)))"

text \<open>
  The composition of one scene into the merged raster. The first branch copies the valid
  pixels of the scene over the merged raster. The second adds the scene, multiplied by
  the running mask, to the merged raster, and clears the mask where the scene is valid;
  the arrays are \<^verbatim>\<open>uint16\<close>, and the rasters are taken in the type of the merged raster.
\<close>

definition overwrite_valid :: "int \<Rightarrow> int list \<Rightarrow> int list \<Rightarrow> int list" where
  "overwrite_valid nd raster_merge raster =
     map (\<lambda>(m, r). if r \<noteq> nd then r else m) (zip raster_merge raster)"

definition accumulate_first :: "int \<Rightarrow> int list \<times> int list \<Rightarrow> int list \<Rightarrow> int list \<times> int list" where
  "accumulate_first nd mm raster =
     (let factor = map (\<lambda>(r, k). (r * k) mod 65536) (zip raster (snd mm))
      in (map (\<lambda>(m, f). (m + f) mod 65536) (zip (fst mm) factor),
          map (\<lambda>(r, k). if r \<noteq> nd then 0 else k) (zip raster (snd mm))))"

definition compose_scene ::
  "'a cube_activity_scheme \<Rightarrow> int \<Rightarrow> int list \<times> int list \<Rightarrow> int list \<Rightarrow> int list \<times> int list" where
  "compose_scene activity nd mm raster =
     (if band activity \<noteq> Some (quality_band activity) \<or> is_sentinel_landsat_quality_fmask activity
      then (overwrite_valid nd (fst mm) raster, snd mm)
      else accumulate_first nd mm raster)"

text \<open>
  The state of the loop over the links: the merged raster with the running mask, the
  variable \<^verbatim>\<open>source_nodata\<close> and the template.
\<close>

record merge_state =
  merged :: "int list \<times> int list"
  cur_source_nodata :: int
  template :: "profile option"

text \<open>
  One link: open the source, choose the nodata of the source, read or warp the band,
  compose it, and keep the profile of the first link as the template. \<open>None\<close> when the
  source cannot be opened or the raster read with a shape has not the size of the merged
  raster.
\<close>

definition merge_link ::
  "merge_env \<Rightarrow> merge_activity \<Rightarrow> int \<Rightarrow> merge_state \<Rightarrow> string \<Rightarrow> merge_state option" where
  "merge_link env activity nd st url =
     (case open_source env url of
        None \<Rightarrow> None
      | Some src \<Rightarrow>
          (let has_shape = (case shape activity of None \<Rightarrow> False | Some sh \<Rightarrow> sh \<noteq> []);
               quality = (band activity = Some (quality_band activity));
               sn = (case src_nodata src of
                       Some v \<Rightarrow> v
                     | None \<Rightarrow>
                         (case source_nodata activity of
                            Some v \<Rightarrow> v
                          | None \<Rightarrow>
                              if sublist ''LANDSAT'' (satellite activity) \<and> \<not> quality
                              then (if src_dtype src = ''int16'' then nd else 0)
                              else if sublist ''CBERS'' (satellite activity) \<and> \<not> quality
                              then nd
                              else cur_source_nodata st));
               raster = (if has_shape then src_read src else src_reproject src sn nd quality)
           in if length raster \<noteq> length (fst (merged st)) then None
              else Some \<lparr>merged = compose_scene activity nd (merged st) raster,
                         cur_source_nodata = sn,
                         template =
                           (case template st of
                              Some t \<Rightarrow> Some t
                            | None \<Rightarrow>
                                Some (if quality
                                      then \<lparr>dtype = src_dtype src, profile_nodata = Some sn\<rparr>
                                      else \<lparr>dtype = ''int16'', profile_nodata = Some nd\<rparr>))\<rparr>))"

fun merge_links ::
  "merge_env \<Rightarrow> merge_activity \<Rightarrow> int \<Rightarrow> merge_state \<Rightarrow> string list \<Rightarrow> merge_state option" where
  "merge_links env activity nd st [] = Some st"
| "merge_links env activity nd st (url # urls) =
     (case merge_link env activity nd st url of
        None \<Rightarrow> None
      | Some st' \<Rightarrow> merge_links env activity nd st' urls)"

definition merge_error :: "merge_activity \<Rightarrow> merge_activity" where
  "merge_error activity = activity\<lparr>mystatus := ''ERROR'', activity_errors := Some ''merge''\<rparr>"

text \<open>
  The warp and merge, after the test of the cache: the body of the \<^verbatim>\<open>try\<close> from
  \<^verbatim>\<open>resx = float(activity['resx'])\<close> on. The raster is written before the activity is
  updated; the update reads \<^verbatim>\<open>new_res_x\<close> and \<^verbatim>\<open>new_res_y\<close>, bound or not. A template that is
  \<^verbatim>\<open>None\<close> (no link) makes the update of the template or the write raise.
\<close>

definition warp_and_merge :: "merge_env \<Rightarrow> merge_activity \<Rightarrow> merge_activity \<times> merge_activity event list" where
  "warp_and_merge env activity =
     (case merge_nodata activity of
        Inl e \<Rightarrow> (merge_error activity, [Put_item_kinesis (merge_error activity)])
      | Inr nd \<Rightarrow>
     (case target_grid activity of
        Inl e \<Rightarrow> (merge_error activity, [Put_item_kinesis (merge_error activity)])
      | Inr (numcol, numlin, new_res) \<Rightarrow>
          if numcol < 0 \<or> numlin < 0
          then (merge_error activity, [Put_item_kinesis (merge_error activity)])
          else
            (let n = nat (numlin * numcol);
                 quality = (band activity = Some (quality_band activity));
                 st0 = \<lparr>merged = (replicate n nd, replicate n 1),
                        cur_source_nodata = (if quality then nd else 0), template = None\<rparr>
             in case merge_links env activity nd st0 (links activity) of
                  None \<Rightarrow> (merge_error activity, [Put_item_kinesis (merge_error activity)])
                | Some st \<Rightarrow>
                    (case template st of
                       None \<Rightarrow> (merge_error activity, [Put_item_kinesis (merge_error activity)])
                     | Some t \<Rightarrow>
                         (let (raster_merge, e, c) =
                                (if quality
                                 then getMask env (fst (merged st)) (activity_mask activity)
                                 else (fst (merged st), 0, 100));
                              written =
                                (if quality
                                 then Create_cog (Some (t\<lparr>dtype := ''uint8''\<rparr>)) (ARDfile activity)
                                        raster_merge True (Some (mask_nodata (activity_mask activity)))
                                 else Create_cog (Some t) (ARDfile activity) raster_merge False None)
                          in case new_res of
                               None \<Rightarrow>
                                 (let a = merge_error (activity\<lparr>efficacy := e, cloudratio := c\<rparr>)
                                  in (a, [written, Put_item_kinesis a]))
                             | Some (new_res_x, new_res_y) \<Rightarrow>
                                 (let a = activity\<lparr>efficacy := e, cloudratio := c,
                                            new_resolution_x := Some new_res_x,
                                            new_resolution_y := Some new_res_y\<rparr>
                                  in (a, [written, Put_item_kinesis a])))))))"

text \<open>
  \<^verbatim>\<open>merge_warped\<close>: the activity is \<^verbatim>\<open>DONE\<close> from the start. With no force and the target
  in the bucket, the target is read and the activity stored (the cached path); if
  reading raises, or the activity has no band to compare with the quality band, the target
  is deleted and the merge is done again.
\<close>

definition merge_warped :: "merge_env \<Rightarrow> merge_activity \<Rightarrow> merge_activity \<times> merge_activity event list" where
  "merge_warped env activity0 =
     (let activity = activity0\<lparr>mystatus := ''DONE''\<rparr>;
          key = ARDfile activity
      in if \<not> force activity \<and> s3_file_exists env key
         then
           (case (case read_band env (s3_prefix env @ key) of
                    None \<Rightarrow> None
                  | Some vals \<Rightarrow>
                      (case band activity of
                         None \<Rightarrow> None
                       | Some b \<Rightarrow>
                           Some (if b = quality_band activity
                                 then qa_statistics env vals (activity_mask activity)
                                 else (0, 100)))) of
              Some (e, c) \<Rightarrow>
                (let a = activity\<lparr>efficacy := e, cloudratio := c\<rparr>
                 in (a, [Put_item_kinesis a]))
            | None \<Rightarrow>
                (case warp_and_merge env activity of
                   (a, evs) \<Rightarrow> (a, Delete_file key # evs)))
         else warp_and_merge env activity)"

section \<open>MERGE preparation: \<open>prepare_merge\<close>\<close>

text \<open>
  The answer of the STAC search: for every band, for every dataset, for every date, the
  scenes of that date (dictionaries in insertion order). A scene has a link and may have
  a nodata value of its source.
\<close>

record stac_scene =
  scene_link :: string
  scene_source_nodata :: "int option"

type_synonym stac_scenes = "(string \<times> (string \<times> (string \<times> stac_scene list) list) list) list"

text \<open>
  The score: for every tile its bounding box and its periods; the dates of a period are
  kept as text (\<^verbatim>\<open>strftime('%Y-%m-%d')\<close>).
\<close>

record period =
  composite_start :: string
  composite_end :: string
  period_dirname :: string
  period_shape :: "int list option"

record tile_item =
  tile_xmin :: real
  tile_ymax :: real
  tile_dist_x :: real
  tile_dist_y :: real
  periods :: "(string \<times> period) list"

text \<open>
  The tables as \<^verbatim>\<open>prepare_merge\<close> reads and writes them: the control table, and for every
  key and sort key of the activity table the status of the record, if there is one.
  The world, read only: the bucket and the STAC search.
  Modelled from the spec: \<^verbatim>\<open>services.search_STAC\<close> is not part of the sources. The spec has
  the search take a bounding box, a time range and collections,
  \<^verbatim>\<open>search(bbox, datetime, collections, limit)\<close>: of the activity it is given, the search reads
  the tile (for the bounding box) and the start and the end of the period; the collections
  and the bands are those of the cube, the same for a whole run.
\<close>

record store =
  control :: control_table
  status_of :: "string \<times> string \<Rightarrow> string option"

record prepare_env = merge_env +
  search_STAC :: "string \<Rightarrow> string \<Rightarrow> string \<Rightarrow> stac_scenes"

text \<open>
  Modelled from the spec: \<^verbatim>\<open>put_control_table\<close> and \<^verbatim>\<open>remove_control_by_key\<close> of the
  services are not part of the sources. The spec has \<^verbatim>\<open>put(id, count, total, date)\<close> write
  the row of a stage key and \<^verbatim>\<open>deleteByKey(id)\<close> remove it.
\<close>

definition put_control_table :: "control_table \<Rightarrow> string \<Rightarrow> int \<Rightarrow> int \<Rightarrow> string \<Rightarrow> control_table" where
  "put_control_table tbl key cnt tot now =
     tbl(key \<mapsto> \<lparr>mycount = cnt, total_instances = tot, end_date = now, errors = 0\<rparr>)"

definition remove_control_by_key :: "control_table \<Rightarrow> string \<Rightarrow> control_table" where
  "remove_control_by_key tbl key = tbl(key := None)"

text \<open>
  The state of the loops: the tables, the activity dictionary (one dictionary, changed in
  place from iteration to iteration), the events so far, the list that the function
  returns, and the exception that has ended the function, if one has: after it nothing
  more is done.
\<close>

record prep =
  prep_store :: store
  prep_activity :: merge_activity
  prep_log :: "merge_activity event list"
  scenes_not_started :: "string list"
  prep_raised :: "py_exception option"

text \<open>
  An activity that is not yet done, or must be done again, is stored and sent to the queue.
\<close>

definition schedule :: "prep \<Rightarrow> merge_activity \<Rightarrow> prep" where
  "schedule p a =
     (let a' = a\<lparr>mystatus := ''NOTDONE'', efficacy := 0, cloudratio := 100\<rparr>
      in p\<lparr>prep_activity := a', prep_log := prep_log p @ [Put_item_kinesis a', Send_to_sqs a']\<rparr>)"

text \<open>
  The body of the loop over the dates of a dataset of a band. \<open>b\<close> is the loop variable
  \<^verbatim>\<open>band\<close>, which names the file; the key is built from the band of the activity
  (\<^verbatim>\<open>encode_key\<close> reads \<^verbatim>\<open>activity['band']\<close>).
\<close>

definition prepare_date ::
  "'e prepare_env_scheme \<Rightarrow> string \<Rightarrow> string \<Rightarrow> prep \<Rightarrow> string \<times> stac_scene list \<Rightarrow> prep" where
  "prepare_date env now b p ds =
     (if prep_raised p \<noteq> None then p
      else
        (let a0 = prep_activity p;
             a1 = a0\<lparr>date := take 10 (fst ds)\<rparr>
         in case band a1 of
              None \<Rightarrow> p\<lparr>prep_activity := a1\<lparr>links := []\<rparr>, prep_raised := Some KeyError\<rparr>
            | Some ab \<Rightarrow>
                (let a2 = a1\<lparr>dynamoKey := encode_key [action a1, irregular_datacube a1, tileid a1,
                                                       date a1, ab],
                            links := map scene_link (snd ds),
                            source_nodata :=
                              (case filter (\<lambda>sc. scene_source_nodata sc \<noteq> None) (snd ds) of
                                 [] \<Rightarrow> source_nodata a1
                               | sc # scs \<Rightarrow> scene_source_nodata (last (sc # scs)))\<rparr>;
                     a3 = a2\<lparr>ARDfile := dirname a2 @ date a2 @ ''/'' @ irregular_datacube a2 @ ''_'' @
                                         version a2 @ ''_'' @ tileid a2 @ ''_'' @ date a2 @ ''_'' @ b @
                                         ''.tif'',
                            sk := date a2\<rparr>
                 in case status_of (prep_store p) (dynamoKey a3, sk a3) of
                      None \<Rightarrow> schedule p a3
                    | Some status \<Rightarrow>
                        if \<not> force a3 \<and> status = ''DONE'' \<and> s3_file_exists env (ARDfile a3)
                        then (case next_step now (control (prep_store p)) a3 of
                                Inl e \<Rightarrow> p\<lparr>prep_activity := a3, prep_raised := Some e\<rparr>
                              | Inr (tbl, fired) \<Rightarrow>
                                  p\<lparr>prep_store := (prep_store p)\<lparr>control := tbl\<rparr>,
                                    prep_activity := a3,
                                    prep_log := prep_log p @
                                      (case fired of None \<Rightarrow> [] | Some f \<Rightarrow> [Fan_out f])\<rparr>)
                        else schedule
                               (p\<lparr>prep_store := (prep_store p)
                                    \<lparr>status_of := (status_of (prep_store p))
                                                    ((dynamoKey a3, sk a3) := None)\<rparr>\<rparr>)
                               a3)))"

definition prepare_dataset ::
  "'e prepare_env_scheme \<Rightarrow> string \<Rightarrow> string \<Rightarrow> prep
     \<Rightarrow> string \<times> (string \<times> stac_scene list) list \<Rightarrow> prep" where
  "prepare_dataset env now b p dd =
     (if prep_raised p \<noteq> None then p
      else foldl (prepare_date env now b)
             (p\<lparr>prep_activity := (prep_activity p)\<lparr>dataset := fst dd\<rparr>\<rparr>) (snd dd))"

definition prepare_band ::
  "'e prepare_env_scheme \<Rightarrow> string \<Rightarrow> prep
     \<Rightarrow> string \<times> (string \<times> (string \<times> stac_scene list) list) list \<Rightarrow> prep" where
  "prepare_band env now p bd =
     (if prep_raised p \<noteq> None then p
      else foldl (prepare_dataset env now (fst bd))
             (p\<lparr>prep_activity := (prep_activity p)\<lparr>band := Some (fst bd)\<rparr>\<rparr>) (snd bd))"

text \<open>
  The dates counted on the first band of the answer: \<^verbatim>\<open>list_dates\<close> and
  \<^verbatim>\<open>number_of_datasets_dates\<close>. With an empty answer \<^verbatim>\<open>list_dates\<close> keeps its old value.
\<close>

definition first_band_dates :: "stac_scenes \<Rightarrow> string list option" where
  "first_band_dates scs =
     (case scs of
        [] \<Rightarrow> None
      | (first_band, datasets) # _ \<Rightarrow> Some (concat (map (\<lambda>(ds, dates). map fst dates) datasets)))"

definition number_of_datasets_dates :: "stac_scenes \<Rightarrow> int" where
  "number_of_datasets_dates scs =
     (case first_band_dates scs of None \<Rightarrow> 0 | Some dates \<Rightarrow> int (length dates))"

text \<open>
  The body of the loop over the periods of a tile.
\<close>

definition prepare_period :: "'e prepare_env_scheme \<Rightarrow> string \<Rightarrow> prep \<Rightarrow> string \<times> period \<Rightarrow> prep" where
  "prepare_period env now p kp =
     (if prep_raised p \<noteq> None then p
      else
     (let per = snd kp;
          a1 = (prep_activity p)\<lparr>start := composite_start per, end' := composite_end per,
                                 dirname := period_dirname per, shape := period_shape per\<rparr>;
          tile_period = encode_key [tileid a1, start a1, end' a1];
          publish_control_key = ''publish'' @ datacube a1 @ tile_period;
          merge_control_key = encode_key [action a1, irregular_datacube a1, tileid a1,
                                          start a1, end' a1]
      in if \<not> force a1 \<and> status_of (prep_store p) (publish_control_key, ''ALLBANDS'') = Some ''DONE''
         then p\<lparr>prep_activity := a1,
                scenes_not_started := scenes_not_started p @
                   [tileid a1 @ ''_'' @ start a1 @ ''_'' @ end' a1]\<rparr>
         else
           (let tbl0 = control (prep_store p);
                tbl1 = (if force a1
                        then remove_control_by_key
                               (remove_control_by_key
                                  (remove_control_by_key
                                     (remove_control_by_key tbl0 merge_control_key)
                                     (''blend'' @ datacube a1 @ tile_period))
                                  (''posblend'' @ datacube a1 @ tile_period))
                               publish_control_key
                        else tbl0);
                scs = search_STAC env (tileid a1) (start a1) (end' a1);
                a2 = (case first_band_dates scs of
                        None \<Rightarrow> a1
                      | Some dates \<Rightarrow> a1\<lparr>list_dates := dates\<rparr>);
                a3 = a2\<lparr>instancesToBeDone := number_of_datasets_dates scs,
                        totalInstancesToBeDone :=
                          number_of_datasets_dates scs * int (length (bands a2))\<rparr>;
                tbl2 = put_control_table tbl1 merge_control_key 0 (totalInstancesToBeDone a3) now;
                p1 = p\<lparr>prep_store := (prep_store p)\<lparr>control := tbl2\<rparr>\<rparr>
            in if number_of_datasets_dates scs = 0
               then (let a4 = a3\<lparr>dynamoKey := merge_control_key, sk := ''NOSCENES'',
                                  mystatus := ''ERROR'', efficacy := 0, cloudratio := 100\<rparr>
                     in p1\<lparr>prep_activity := a4, prep_log := prep_log p1 @ [Put_item_kinesis a4]\<rparr>)
               else foldl (prepare_band env now) (p1\<lparr>prep_activity := a3\<rparr>) scs)))"

text \<open>
  The loop over the tiles, and \<^verbatim>\<open>prepare_merge\<close> from the activity that holds the basics of
  the cube, which has no band yet.
\<close>

definition prepare_tile :: "'e prepare_env_scheme \<Rightarrow> string \<Rightarrow> prep \<Rightarrow> string \<times> tile_item \<Rightarrow> prep" where
  "prepare_tile env now p ti =
     (if prep_raised p \<noteq> None then p
      else foldl (prepare_period env now)
             (p\<lparr>prep_activity := (prep_activity p)
                  \<lparr>tileid := fst ti, xmin := tile_xmin (snd ti), ymax := tile_ymax (snd ti),
                   dist_x := tile_dist_x (snd ti), dist_y := tile_dist_y (snd ti)\<rparr>\<rparr>)
             (periods (snd ti)))"

definition prepare_merge ::
  "'e prepare_env_scheme \<Rightarrow> string \<Rightarrow> store \<Rightarrow> merge_activity \<Rightarrow> (string \<times> tile_item) list \<Rightarrow> prep" where
  "prepare_merge env now st basics score_items =
     foldl (prepare_tile env now)
       \<lparr>prep_store = st, prep_activity = basics\<lparr>action := ''merge'', band := None\<rparr>, prep_log = [],
        scenes_not_started = [], prep_raised = None\<rparr>
       score_items"

section \<open>Example inputs\<close>

text \<open>
  Concrete inputs on which the functions above are evaluated below: the mask of a cube
  with Sentinel-2 scene classification, a blend activity of the band \<^verbatim>\<open>red\<close> of a
  Landsat-8 cube with the functions IDT and STK, and the activity table with one merged
  date of that band.
\<close>

definition example_mask :: mask_desc where
  "example_mask = \<lparr>mask_nodata = 0, clear_data = [4, 5, 6, 7],
                    not_clear_data = [2, 3, 8, 9, 10, 11], saturated_data = [1]\<rparr>"

definition example_blendactivity :: blend_activity where
  "example_blendactivity =
     \<lparr>action = ''blend'', dynamoKey = ''blendLC8_30_16D_STK0890982019-01-012019-01-16'',
      band = Some ''red'', date = [], start = ''2019-01-01'', end' = ''2019-01-16'',
      mystatus = ''NOTDONE'', totalInstancesToBeDone = 5, bands_expressions = None,
      sk = ''red'', datacube = ''LC8_30_16D_STK'', irregular_datacube = ''LC8_30'',
      version = ''v001'', satellite = ''LANDSAT-8'', tileid = ''089098'',
      dirname = ''LC8_30/v001/089098/'', bucket_name = ''bucket'',
      bands = [''red'', ''Fmask4''], internal_bands = [''CLEAROB'', ''TOTALOB'', ''PROVENANCE''],
      functions' = [''IDT'', ''STK''], quality_band = ''Fmask4'', nodata = Some (- 9999),
      activity_mask = example_mask, force = False, efficacy = 0, cloudratio = 100,
      activity_errors = None, instancesToBeDone = 0, list_dates = [''2019-01-05''],
      scenes = [], files = [], internal_band = None\<rparr>"

definition example_mergeactivity :: blend_activity where
  "example_mergeactivity = example_blendactivity\<lparr>action := ''merge''\<rparr>"

definition example_items :: "string \<Rightarrow> item list option" where
  "example_items k =
     (if k = ''mergeLC8_300890982019-01-05red''
      then Some [\<lparr>item_sk = ''2019-01-05'', item_mystatus = ''DONE'', item_efficacy = 80,
                   item_cloudratio = 20, item_date = ''2019-01-05'', item_dataset = ''LC8'',
                   item_satellite = ''LANDSAT-8'',
                   item_ARDfile = ''LC8_30/v001/089098/2019-01-05/LC8_30_v001_089098_2019-01-05_red.tif''\<rparr>]
      else Some [])"

text \<open>
  A merge activity of the band \<^verbatim>\<open>red\<close> of the same cube, with a shape, and a world in which
  the target is not in the bucket and every link opens a source of two pixels, the second
  without data.
\<close>

definition example_merge :: merge_activity where
  "example_merge =
     \<lparr>action = ''merge'', dynamoKey = ''mergeLC8_300890982019-01-05red'',
      band = Some ''red'', date = ''2019-01-05'', start = ''2019-01-01'', end' = ''2019-01-16'',
      mystatus = ''NOTDONE'', totalInstancesToBeDone = 2, bands_expressions = None,
      sk = ''2019-01-05'', datacube = ''LC8_30_16D_STK'', irregular_datacube = ''LC8_30'',
      version = ''v001'', satellite = ''LANDSAT-8'', tileid = ''089098'',
      dirname = ''LC8_30/v001/089098/'', bucket_name = ''bucket'',
      bands = [''red'', ''Fmask4''], internal_bands = [''CLEAROB'', ''TOTALOB'', ''PROVENANCE''],
      functions' = [''IDT'', ''STK''], quality_band = ''Fmask4'', nodata = Some (- 9999),
      activity_mask = example_mask, force = True, efficacy = 0, cloudratio = 100,
      activity_errors = None, instancesToBeDone = 1, list_dates = [''2019-01-05''],
      dataset = ''LC8'',
      ARDfile = ''LC8_30/v001/089098/2019-01-05/LC8_30_v001_089098_2019-01-05_red.tif'',
      links = [''s3://landsat/B4.TIF''], source_nodata = None, shape = Some [2, 1],
      resx = 30, resy = 30, xmin = 0, ymax = 60, dist_x = 60, dist_y = 30,
      new_resolution_x = None, new_resolution_y = None\<rparr>"

definition example_env :: merge_env where
  "example_env =
     \<lparr>s3_prefix = ''s3://bucket/'', read_band = (\<lambda>f. None),
      read_profile = (\<lambda>f. \<lparr>dtype = ''int16'', profile_nodata = Some (- 9999)\<rparr>),
      tm_yday = (\<lambda>d. Some 5), np_median = (\<lambda>vs. 0),
      qa_statistics = (\<lambda>vs m. (0, 100)), float_score = (\<lambda>e. 100 * e / 10),
      s3_file_exists = (\<lambda>k. False),
      open_source = (\<lambda>url. Some \<lparr>src_nodata = None, src_dtype = ''int16'',
                                   src_read = [5, - 9999],
                                   src_reproject = (\<lambda>sn nd nearest. [5, - 9999])\<rparr>),
      getMask = (\<lambda>raster m. (raster, 0, 100))\<rparr>"

text \<open>
  The same world with the merged files of one date in the bucket: a quality raster that is
  cloudy at the first pixel and empty at the second, and a band raster with data at the
  first pixel only. The blend activity of the band \<^verbatim>\<open>red\<close> with that scene and its output
  key.
\<close>

definition example_blend_env :: merge_env where
  "example_blend_env =
     example_env\<lparr>read_band := (\<lambda>f. if sublist ''Fmask4'' f then Some [9, 0]
                                     else Some [5, - 9999])\<rparr>"

definition example_blend_ready :: blend_activity where
  "example_blend_ready =
     example_blendactivity
       \<lparr>scenes := [(''2019-01-05'',
                    \<lparr>scene_efficacy = 80, scene_date = ''2019-01-05'', scene_dataset = ''LC8'',
                     scene_satellite = ''LANDSAT-8'', scene_cloudratio = 20,
                     ARDfiles = [(''Fmask4'', ''LC8_30_v001_089098_2019-01-05_Fmask4.tif''),
                                 (''red'', ''LC8_30_v001_089098_2019-01-05_red.tif'')]\<rparr>)],
        files := [(''STKfile'', ''LC8_30_16D_STK/v001/089098/2019-01-01_2019-01-16/LC8_30_16D_STK_v001_089098_2019-01-01_2019-01-16_red.tif'')]\<rparr>"

text \<open>
  A world whose STAC search finds nothing for the tile 089098 and one scene of the band
  \<^verbatim>\<open>red\<close> for every other tile, empty tables with an activity that has no band yet, a
  period, and a score of two tiles with that period.
\<close>

definition example_prepare_env :: prepare_env where
  "example_prepare_env =
     \<lparr>s3_prefix = ''s3://bucket/'', read_band = (\<lambda>f. None),
      read_profile = (\<lambda>f. \<lparr>dtype = ''int16'', profile_nodata = Some (- 9999)\<rparr>),
      tm_yday = (\<lambda>d. Some 5), np_median = (\<lambda>vs. 0),
      qa_statistics = (\<lambda>vs m. (0, 100)), float_score = (\<lambda>e. 100 * e / 10),
      s3_file_exists = (\<lambda>k. False),
      open_source = (\<lambda>url. None),
      getMask = (\<lambda>raster m. (raster, 0, 100)),
      search_STAC =
        (\<lambda>tile s e. if tile = ''089098'' then []
             else [(''red'', [(''LC8'', [(''2019-01-05T13:00:00'',
                      [\<lparr>scene_link = ''s3://landsat/B4.TIF'', scene_source_nodata = None\<rparr>])])])])\<rparr>"

definition example_prep :: prep where
  "example_prep =
     \<lparr>prep_store = \<lparr>control = Map.empty, status_of = (\<lambda>k. None)\<rparr>,
      prep_activity = example_merge\<lparr>band := None\<rparr>, prep_log = [], scenes_not_started = [],
      prep_raised = None\<rparr>"

definition example_period :: "string \<times> period" where
  "example_period =
     (''2019-01-01_2019-01-16'',
      \<lparr>composite_start = ''2019-01-01'', composite_end = ''2019-01-16'',
       period_dirname = ''LC8_30/v001/089098/'', period_shape = None\<rparr>)"

definition example_score :: "(string \<times> tile_item) list" where
  "example_score =
     [(''089098'', \<lparr>tile_xmin = 0, tile_ymax = 60, tile_dist_x = 60, tile_dist_y = 30,
                    periods = [example_period]\<rparr>),
      (''089099'', \<lparr>tile_xmin = 60, tile_ymax = 60, tile_dist_x = 60, tile_dist_y = 30,
                    periods = [example_period]\<rparr>)]"

section \<open>Stage transitions: \<open>solo\<close> and \<open>next_step\<close>\<close>

lemma solo_nth:
  assumes "tbl key = Some row"
    and "\<forall>a\<in>set acts. get_key_to_controltable a = Inr key"
  shows "\<exists>tbl' fired. solo now tbl acts = Inr (tbl', fired) \<and> length fired = length acts \<and>
     (\<forall>i<length acts. fired ! i =
       (if mystatus (acts ! i) = ''DONE'' \<and>
           totalInstancesToBeDone (acts ! i)
             \<le> mycount row + int (length (filter (\<lambda>a. mystatus a = ''DONE'') (take (Suc i) acts)))
        then child_stage (acts ! i) else None))"
  using assms
proof (induction acts arbitrary: tbl row)
  case Nil
  then show ?case by simp
next
  case (Cons a acts)
  have key: "get_key_to_controltable a = Inr key" using Cons.prems(2) by simp
  define fired0 where "fired0 = (if mystatus a = ''DONE'' \<and> totalInstancesToBeDone a \<le> mycount row + 1
                        then child_stage a else None)"
  have "\<exists>tbl1. (if mystatus a = ''DONE'' then next_step now tbl a
             else if mystatus a = ''ERROR''
               then Inr (update_errors tbl key, None)
             else Inr (tbl, None)) = Inr (tbl1, fired0) \<and>
          (\<exists>row1. tbl1 key = Some row1 \<and>
          mycount row1 = mycount row + (if mystatus a = ''DONE'' then 1 else 0))"
  proof (cases "mystatus a = ''DONE''")
    case True
    then show ?thesis using Cons.prems(1) key
      by (simp add: fired0_def next_step_def update_mycount_def)
  next
    case False
    then show ?thesis using Cons.prems(1)
      by (simp add: fired0_def update_errors_def)
  qed
  then obtain tbl1 where step: "(if mystatus a = ''DONE'' then next_step now tbl a
             else if mystatus a = ''ERROR''
               then Inr (update_errors tbl key, None)
             else Inr (tbl, None)) = Inr (tbl1, fired0)"
    and tbl1: "\<exists>row1. tbl1 key = Some row1 \<and>
          mycount row1 = mycount row + (if mystatus a = ''DONE'' then 1 else 0)"
    by blast
  obtain row1 where row1: "tbl1 key = Some row1"
    and cnt: "mycount row1 = mycount row + (if mystatus a = ''DONE'' then 1 else 0)"
    using tbl1 by blast
  have keys: "\<forall>a\<in>set acts. get_key_to_controltable a = Inr key" using Cons.prems(2) by simp
  from Cons.IH[where tbl = tbl1 and row = row1, OF row1 keys] obtain tbl2 rest where
    rest: "solo now tbl1 acts = Inr (tbl2, rest)" and len: "length rest = length acts"
    and nth: "\<forall>j<length acts. rest ! j =
       (if mystatus (acts ! j) = ''DONE'' \<and>
           totalInstancesToBeDone (acts ! j)
             \<le> mycount row1 + int (length (filter (\<lambda>a. mystatus a = ''DONE'') (take (Suc j) acts)))
        then child_stage (acts ! j) else None)"
    by blast
  have sol: "solo now tbl (a # acts) = Inr (tbl2, fired0 # rest)"
    using step rest key by simp
  have "(fired0 # rest) ! i =
       (if mystatus ((a # acts) ! i) = ''DONE'' \<and>
           totalInstancesToBeDone ((a # acts) ! i)
             \<le> mycount row + int (length (filter (\<lambda>a. mystatus a = ''DONE'') (take (Suc i) (a # acts))))
        then child_stage ((a # acts) ! i) else None)" if "i < length (a # acts)" for i
  proof (cases i)
    case 0
    then show ?thesis by (simp add: fired0_def)
  next
    case (Suc j)
    then have j: "j < length acts" using that by simp
    show ?thesis using nth[rule_format, OF j] Suc cnt
      by (cases "mystatus a = ''DONE''") (simp_all add: algebra_simps)
  qed
  then show ?case using sol len by simp
qed

lemma child_stage_some:
  "action a \<in> {''merge'', ''blend'', ''posblend''} \<Longrightarrow> child_stage a \<noteq> None"
  by (auto simp: child_stage_def)


text \<open>
  Claim C1, as the code has it. On one stage key whose counter starts at \<open>mycount = 0\<close>,
  with completers that all carry the same \<open>totalInstancesToBeDone = n\<close>, \<open>solo\<close> returns,
  and the completer number \<open>i + 1\<close> (whose increment returns \<open>mycount = i + 1\<close>) starts the
  child-stage fan-out exactly when \<open>n \<le> i + 1\<close>: the calls that see \<open>mycount < n\<close> are
  silent, the call that first makes \<open>mycount = n\<close> fires, and every later call, which sees
  \<open>mycount > n\<close>, fires again.
\<close>

theorem next_step_fires_from_total_on:
  assumes "tbl key = Some row" and "mycount row = 0"
    and "\<forall>a\<in>set acts. get_key_to_controltable a = Inr key \<and> mystatus a = ''DONE''
            \<and> totalInstancesToBeDone a = n \<and> action a \<in> {''merge'', ''blend'', ''posblend''}"
    and "i < length acts"
  shows "\<exists>tbl' fired. solo now tbl acts = Inr (tbl', fired) \<and>
           ((fired ! i \<noteq> None) \<longleftrightarrow> n \<le> int i + 1)"
proof -
  have keys: "\<forall>a\<in>set acts. get_key_to_controltable a = Inr key" using assms(3) by simp
  have "filter (\<lambda>a. mystatus a = ''DONE'') (take (Suc i) acts) = take (Suc i) acts"
    using assms(3) by (auto simp: filter_id_conv dest: in_set_takeD)
  then have len: "length (filter (\<lambda>a. mystatus a = ''DONE'') (take (Suc i) acts)) = Suc i"
    using assms(4) by simp
  have mem: "acts ! i \<in> set acts" using assms(4) by simp
  have ch: "child_stage (acts ! i) \<noteq> None"
    using assms(3) mem by (intro child_stage_some) blast
  have st: "mystatus (acts ! i) = ''DONE''" "totalInstancesToBeDone (acts ! i) = n"
    using assms(3) mem by blast+
  from solo_nth[where tbl = tbl and key = key and row = row and now = now, OF assms(1) keys]
  obtain tbl' fired where s: "solo now tbl acts = Inr (tbl', fired)"
    and nth: "\<forall>i<length acts. fired ! i =
       (if mystatus (acts ! i) = ''DONE'' \<and>
           totalInstancesToBeDone (acts ! i)
             \<le> mycount row + int (length (filter (\<lambda>a. mystatus a = ''DONE'') (take (Suc i) acts)))
        then child_stage (acts ! i) else None)"
    by blast
  have "(fired ! i \<noteq> None) \<longleftrightarrow> n \<le> int i + 1"
    unfolding nth[rule_format, OF assms(4)] len using ch st assms(2) by auto
  then show ?thesis using s by blast
qed

theorem next_step_fires_from_total_on_witness:
  "\<exists>tbl' fired.
     solo ''t'' [''mT'' \<mapsto> \<lparr>mycount = 0, total_instances = 2, end_date = [], errors = 0\<rparr>]
      (replicate 3 \<lparr>action = ''merge'', dynamoKey = ''mTdb'', band = Some ''b'', date = ''d'',
         start = [], end' = [], mystatus = ''DONE'', totalInstancesToBeDone = 2,
         bands_expressions = None\<rparr>) = Inr (tbl', fired) \<and>
     ((fired ! 2 \<noteq> None) \<longleftrightarrow> (2::int) \<le> int 2 + 1)"
  by (rule next_step_fires_from_total_on[where key = "''mT''"
        and row = "\<lparr>mycount = 0, total_instances = 2, end_date = [], errors = 0\<rparr>"])
     (simp_all add: get_key_to_controltable_def)

text \<open>
  Claim C1 as stated fails: with \<open>totalInstancesToBeDone = 1\<close> a second completer of the
  same stage key gets \<open>mycount = 2 > 1\<close> from its increment and starts the fan-out again.
\<close>

theorem next_step_fires_above_total_counterexample:
  "solo ''t'' [''mT'' \<mapsto> \<lparr>mycount = 0, total_instances = 1, end_date = [], errors = 0\<rparr>]
      [\<lparr>action = ''merge'', dynamoKey = ''mTdb'', band = Some ''b'', date = ''d'', start = [],
         end' = [], mystatus = ''DONE'', totalInstancesToBeDone = 1, bands_expressions = None\<rparr>,
       \<lparr>action = ''merge'', dynamoKey = ''mTeb'', band = Some ''b'', date = ''e'', start = [],
         end' = [], mystatus = ''DONE'', totalInstancesToBeDone = 1, bands_expressions = None\<rparr>]
   = Inr ([''mT'' \<mapsto> \<lparr>mycount = 2, total_instances = 1, end_date = ''t'', errors = 0\<rparr>],
          [Some Next_blend, Some Next_blend])"
  by (simp add: next_step_def update_mycount_def get_key_to_controltable_def child_stage_def)




section \<open>BLEND preparation: the output keys of \<open>fill_blend\<close>\<close>

text \<open>
  The loop of \<open>fill_blend\<close> over the functions skips none: it defines the entry
  \<^verbatim>\<open>'{function}file'\<close> for every function of the cube, IDT included.
\<close>

lemma fill_files_keys:
  "fst ` set (files (fill_files a b fs)) = fst ` set (files a) \<union> (\<lambda>f. f @ ''file'') ` set fs"
  by (induction fs arbitrary: a) (auto simp: func_def AList.update_keys dom_update)

text \<open>
  Claim C3 on the code. For the band \<^verbatim>\<open>red\<close> (not the quality band) of a cube with the
  functions IDT and STK, \<open>fill_blend\<close> succeeds and defines \<^verbatim>\<open>IDTfile\<close>, with the path of the
  claim for the function IDT; the claim has no \<^verbatim>\<open>IDTfile\<close> defined.
\<close>

theorem fill_blend_defines_IDTfile:
  "(case fill_blend example_items example_mergeactivity example_blendactivity None of
      Inl e \<Rightarrow> False
    | Inr (ok, blendactivity) \<Rightarrow>
        ok \<and>
        map_of (files blendactivity) ''IDTfile''
          = Some ''LC8_30_16D_IDT/v001/089098/2019-01-01_2019-01-16/LC8_30_16D_IDT_v001_089098_2019-01-01_2019-01-16_red.tif'') \<and>
   functions' example_blendactivity = [''IDT'', ''STK''] \<and>
   band example_blendactivity = Some ''red'' \<and>
   ''red'' \<noteq> quality_band example_blendactivity"
  by code_simp

section \<open>MERGE: the composition of the scenes\<close>

lemma overwrite_valid_length:
  "length raster = length raster_merge \<Longrightarrow> length (overwrite_valid nd raster_merge raster) = length raster_merge"
  by (simp add: overwrite_valid_def)




lemma accumulate_first_length:
  "length raster = length (fst mm) \<Longrightarrow> length (snd mm) = length (fst mm) \<Longrightarrow>
   length (fst (accumulate_first nd mm raster)) = length (fst mm) \<and>
   length (snd (accumulate_first nd mm raster)) = length (fst mm)"
  by (simp add: accumulate_first_def Let_def)





lemma compose_scene_length:
  assumes "length raster = length (fst mm)" "length (snd mm) = length (fst mm)"
  shows "length (fst (compose_scene activity nd mm raster)) = length (fst mm) \<and>
         length (snd (compose_scene activity nd mm raster)) = length (fst mm)"
  using assms accumulate_first_length[OF assms, of nd]
  by (simp add: compose_scene_def overwrite_valid_length)



text \<open>
  The loop over the links is the fold of \<open>compose_scene\<close> over the rasters that it read,
  in the order of the links.
\<close>

lemma merge_links_fold:
  assumes "merge_links env activity nd st urls = Some st'"
    and "length (snd (merged st)) = length (fst (merged st))"
  shows "\<exists>rasters. length rasters = length urls \<and>
           (\<forall>r\<in>set rasters. length r = length (fst (merged st))) \<and>
           merged st' = foldl (compose_scene activity nd) (merged st) rasters"
  using assms
proof (induction urls arbitrary: st)
  case Nil
  then show ?case by simp
next
  case (Cons url urls)
  from Cons.prems(1) obtain st1 where s1: "merge_link env activity nd st url = Some st1"
    and rest: "merge_links env activity nd st1 urls = Some st'"
    by (auto split: option.splits)
  from s1 obtain raster where r: "length raster = length (fst (merged st))"
    and m1: "merged st1 = compose_scene activity nd (merged st) raster"
    by (auto simp: merge_link_def Let_def split: option.splits if_splits)
  note len = compose_scene_length[OF r Cons.prems(2), of activity nd]
  have l1: "length (snd (merged st1)) = length (fst (merged st1))" using len m1 by simp
  from Cons.IH[OF rest l1] obtain rasters where rs: "length rasters = length urls"
    "\<forall>r\<in>set rasters. length r = length (fst (merged st1))"
    "merged st' = foldl (compose_scene activity nd) (merged st1) rasters" by blast
  have "length (raster # rasters) = length (url # urls)" using rs(1) by simp
  moreover have "\<forall>r\<in>set (raster # rasters). length r = length (fst (merged st))"
    using rs(2) r len m1 by simp
  moreover have "merged st' = foldl (compose_scene activity nd) (merged st) (raster # rasters)"
    using rs(3) m1 by simp
  ultimately show ?case by blast
qed





section \<open>MERGE: the update of the activity\<close>

text \<open>
  With a shape of two numbers the warp and merge never ends \<^verbatim>\<open>DONE\<close>; without a shape,
  once the raster is written, the activity keeps its status and carries both new
  resolutions.
\<close>

lemma warp_and_merge_with_shape:
  assumes "shape activity = Some (x # y # zs)"
  shows "mystatus (fst (warp_and_merge env activity)) = ''ERROR''"
  using assms
  by (auto simp: warp_and_merge_def target_grid_def merge_error_def Let_def
           split: sum.splits option.splits prod.splits if_splits)

lemma warp_and_merge_without_shape:
  assumes "shape activity = None"
    and "warp_and_merge env activity = (a, evs)"
    and "Create_cog p k r f nd \<in> set evs"
  shows "mystatus a = mystatus activity \<and> new_resolution_x a \<noteq> None \<and> new_resolution_y a \<noteq> None
         \<and> evs = [Create_cog p k r f nd, Put_item_kinesis a]"
  using assms
  by (auto simp: warp_and_merge_def target_grid_def merge_error_def Let_def
           split: sum.splits option.splits prod.splits if_splits)

text \<open>
  Claim C6 on the code. A forced merge activity with the shape \<open>[2, 1]\<close> writes its raster
  to \<^verbatim>\<open>ARDfile\<close> and is then stored in \<^verbatim>\<open>ERROR\<close>, step \<^verbatim>\<open>merge\<close>, without new resolutions:
  \<^verbatim>\<open>str(new_res_x)\<close> reads a variable that is bound only when there is no shape. The claim
  has the activity \<^verbatim>\<open>DONE\<close> with its resolutions.
\<close>

theorem merge_warped_shape_ends_in_error:
  "shape example_merge = Some [2, 1] \<and> force example_merge \<and>
   (case merge_warped example_env example_merge of
      (a, evs) \<Rightarrow>
        evs = [Create_cog (Some \<lparr>dtype = ''int16'', profile_nodata = Some (- 9999)\<rparr>)
                 (ARDfile example_merge) [5, - 9999] False None,
               Put_item_kinesis a] \<and>
        mystatus a = ''ERROR'' \<and> activity_errors a = Some ''merge'' \<and>
        new_resolution_x a = None \<and> new_resolution_y a = None)"
  by code_simp

section \<open>The Landsat scene-id parser\<close>

lemma match_tokens_names:
  "match_tokens u ts s = Some (gs, r) \<Longrightarrow>
     map fst gs = concat (map (\<lambda>t. case t of Group n ks \<Rightarrow> [n] | Lit l \<Rightarrow> []) ts)"
  by (induction u ts s arbitrary: gs r rule: match_tokens.induct)
     (auto split: option.splits if_splits prod.splits)

lemma match_tokens_third_group:
  assumes "match_tokens u (Lit l # Group n1 [k1] # Group n2 [k2, k3] # ts) s = Some (gs, r)"
    and "n1 \<noteq> n2"
  shows "map_of gs n2 = Some (take 2 (drop 2 s))"
proof (cases s)
  case Nil
  then show ?thesis using assms by simp
next
  case s0: (Cons c0 s1)
  show ?thesis
  proof (cases s1)
    case Nil
    then show ?thesis using assms s0 by (simp split: if_splits)
  next
    case s1: (Cons c1 s2)
    show ?thesis
    proof (cases s2)
      case Nil
      then show ?thesis using assms s0 s1 by (simp split: if_splits)
    next
      case s2: (Cons c2 s3)
      show ?thesis
      proof (cases s3)
        case Nil
        then show ?thesis using assms s0 s1 s2 by (simp split: if_splits)
      next
        case (Cons c3 s4)
        then show ?thesis using assms s0 s1 s2
          by (auto split: if_splits option.splits prod.splits)
      qed
    qed
  qed
qed

lemma landsat_groups:
  assumes "re_match u landsat_pattern s = Some meta"
  shows "map fst meta =
           [''sensor'', ''satellite'', ''processingCorrectionLevel'', ''path'', ''row'',
            ''acquisitionYear'', ''acquisitionMonth'', ''acquisitionDay'', ''processingYear'',
            ''processingMonth'', ''processingDay'', ''collectionNumber'', ''collectionCategory'']"
    and "map_of meta ''satellite'' = Some (take 2 (drop 2 s))"
proof -
  obtain r where m: "match_tokens u landsat_pattern s = Some (meta, r)"
    using assms by (auto simp: re_match_def split: option.splits if_splits)
  show "map fst meta =
           [''sensor'', ''satellite'', ''processingCorrectionLevel'', ''path'', ''row'',
            ''acquisitionYear'', ''acquisitionMonth'', ''acquisitionDay'', ''processingYear'',
            ''processingMonth'', ''processingDay'', ''collectionNumber'', ''collectionCategory'']"
    using match_tokens_names[OF m] by (simp add: landsat_pattern_def)
  show "map_of meta ''satellite'' = Some (take 2 (drop 2 s))"
    using m unfolding landsat_pattern_def by (rule match_tokens_third_group) simp
qed

lemma map_of_instruments:
  "map_of instruments sat =
     (if sat = ustr ''05'' then Some (ustr ''tm'') else if sat = ustr ''07'' then Some (ustr ''etm'')
      else if sat = ustr ''08'' then Some (ustr ''oli-tirs'') else None)"
  by (simp add: instruments_def)

text \<open>
  Claim C10, as the code has it, for scene ids that are Python strings (any Unicode
  characters; \<open>u\<close> says which characters above ASCII are alphanumeric). \<^verbatim>\<open>landsat\<close> returns
  a record exactly when the scene id matches the pattern, its satellite field (the two
  characters after \<^verbatim>\<open>L\<close> and the sensor letter) is \<^verbatim>\<open>05\<close>, \<^verbatim>\<open>07\<close> or \<^verbatim>\<open>08\<close>, and no key of
  \<open>args\<close> repeats \<^verbatim>\<open>scene_id\<close>, a group name, \<^verbatim>\<open>instrument\<close> or another key of \<open>args\<close>. The
  record holds the scene id, the satellite field and the instrument (\<^verbatim>\<open>tm\<close>, \<^verbatim>\<open>etm\<close>,
  \<^verbatim>\<open>oli-tirs\<close>). A matching scene id with another satellite code raises \<^verbatim>\<open>KeyError\<close>; a
  scene id that does not match raises \<^verbatim>\<open>AttributeError\<close>, since \<^verbatim>\<open>re.match\<close> returned
  \<^verbatim>\<open>None\<close>.
\<close>

theorem landsat_returns_iff:
  "((\<exists>r. landsat u s args = Inr r) \<longleftrightarrow>
      re_match u landsat_pattern s \<noteq> None \<and>
      take 2 (drop 2 s) \<in> {ustr ''05'', ustr ''07'', ustr ''08''} \<and>
      distinct ([''scene_id'', ''sensor'', ''satellite'', ''processingCorrectionLevel'', ''path'',
            ''row'', ''acquisitionYear'', ''acquisitionMonth'', ''acquisitionDay'',
            ''processingYear'', ''processingMonth'', ''processingDay'', ''collectionNumber'',
            ''collectionCategory'', ''instrument''] @ map fst args)) \<and>
   (landsat u s args = Inr r \<longrightarrow>
      map_of r ''scene_id'' = Some s \<and>
      map_of r ''satellite'' = Some (take 2 (drop 2 s)) \<and>
      map_of r ''instrument'' =
        (if take 2 (drop 2 s) = ustr ''05'' then Some (ustr ''tm'')
         else if take 2 (drop 2 s) = ustr ''07'' then Some (ustr ''etm'')
         else Some (ustr ''oli-tirs''))) \<and>
   (re_match u landsat_pattern s \<noteq> None \<and>
    take 2 (drop 2 s) \<notin> {ustr ''05'', ustr ''07'', ustr ''08''}
      \<longrightarrow> landsat u s args = Inl KeyError) \<and>
   (re_match u landsat_pattern s = None \<longrightarrow> landsat u s args = Inl AttributeError)"
proof (cases "re_match u landsat_pattern s")
  case None
  then show ?thesis by (simp add: landsat_def)
next
  case (Some meta)
  note g = landsat_groups[OF Some]
  show ?thesis
  proof (cases "take 2 (drop 2 s) \<in> {ustr ''05'', ustr ''07'', ustr ''08''}")
    case False
    then show ?thesis using Some g(2)
      by (simp add: landsat_def map_of_instruments)
  next
    case True
    then obtain instr where i: "map_of instruments (take 2 (drop 2 s)) = Some instr"
      and iv: "Some instr = (if take 2 (drop 2 s) = ustr ''05'' then Some (ustr ''tm'')
         else if take 2 (drop 2 s) = ustr ''07'' then Some (ustr ''etm'')
         else Some (ustr ''oli-tirs''))"
      by (auto simp: map_of_instruments ustr_def)
    have l: "landsat u s args =
        py_dict ((''scene_id'', s) # (meta @ [(''instrument'', instr)]) @ args)"
      using Some g(2) i by (simp add: landsat_def)
    have keys: "map fst ((''scene_id'', s) # (meta @ [(''instrument'', instr)]) @ args) =
        [''scene_id'', ''sensor'', ''satellite'', ''processingCorrectionLevel'', ''path'',
            ''row'', ''acquisitionYear'', ''acquisitionMonth'', ''acquisitionDay'',
            ''processingYear'', ''processingMonth'', ''processingDay'', ''collectionNumber'',
            ''collectionCategory'', ''instrument''] @ map fst args"
      using g(1) by simp
    have dom: "fst ` set meta = set [''sensor'', ''satellite'', ''processingCorrectionLevel'', ''path'', ''row'',
            ''acquisitionYear'', ''acquisitionMonth'', ''acquisitionDay'', ''processingYear'',
            ''processingMonth'', ''processingDay'', ''collectionNumber'', ''collectionCategory'']"
      using arg_cong[where f = set, OF g(1)] by (simp only: set_map)
    have inst_notin: "map_of meta ''instrument'' = None"
      unfolding map_of_eq_None_iff dom by simp
    have res: "landsat u s args = Inr r \<Longrightarrow>
        r = (''scene_id'', s) # (meta @ [(''instrument'', instr)]) @ args" for r
      unfolding l py_dict_def by (simp split: if_splits)
    have c1: "(\<exists>r. landsat u s args = Inr r) \<longleftrightarrow>
      distinct ([''scene_id'', ''sensor'', ''satellite'', ''processingCorrectionLevel'', ''path'',
            ''row'', ''acquisitionYear'', ''acquisitionMonth'', ''acquisitionDay'',
            ''processingYear'', ''processingMonth'', ''processingDay'', ''collectionNumber'',
            ''collectionCategory'', ''instrument''] @ map fst args)"
      unfolding l py_dict_def keys[symmetric] by simp
    have c2: "landsat u s args = Inr r \<longrightarrow>
      map_of r ''scene_id'' = Some s \<and>
      map_of r ''satellite'' = Some (take 2 (drop 2 s)) \<and>
      map_of r ''instrument'' = Some instr"
    proof
      assume "landsat u s args = Inr r"
      then have r: "r = (''scene_id'', s) # (meta @ [(''instrument'', instr)]) @ args"
        by (rule res)
      show "map_of r ''scene_id'' = Some s \<and>
        map_of r ''satellite'' = Some (take 2 (drop 2 s)) \<and>
        map_of r ''instrument'' = Some instr"
        unfolding r using g(2) inst_notin by (simp add: map_add_def)
    qed
    show ?thesis using c1 c2 Some True iv by simp
  qed
qed

text \<open>
  The theorem at concrete scene ids: a Landsat-8 scene id returns a record; so does a
  scene id whose sensor letter is the letter E with acute accent (code point 201), which
  is alphanumeric; a satellite code \<^verbatim>\<open>09\<close> raises \<^verbatim>\<open>KeyError\<close>; a short scene id raises
  \<^verbatim>\<open>AttributeError\<close>.
\<close>

theorem landsat_returns_iff_witness:
  "(\<exists>r. landsat (\<lambda>c. c = 201) (ustr ''LC08_L1TP_221069_20190103_20190103_01_T1'')
           [(''cloud'', ustr ''10'')] = Inr r) \<and>
   (\<exists>r. landsat (\<lambda>c. c = 201) (76 # 201 # ustr ''08_L1TP_221069_20190103_20190103_01_T1'') []
           = Inr r) \<and>
   landsat (\<lambda>c. c = 201) (ustr ''LC09_L1TP_221069_20190103_20190103_01_T1'') [] = Inl KeyError \<and>
   landsat (\<lambda>c. c = 201) (ustr ''LC08_L1TP_221069'') [] = Inl AttributeError"
proof -
  let ?u = "\<lambda>c::nat. c = 201"
  let ?s = "ustr ''LC08_L1TP_221069_20190103_20190103_01_T1''"
  have m: "re_match ?u landsat_pattern ?s \<noteq> None" by code_simp
  have t: "take 2 (drop 2 ?s) \<in> {ustr ''05'', ustr ''07'', ustr ''08''}" by (simp add: ustr_def)
  have d: "distinct ([''scene_id'', ''sensor'', ''satellite'', ''processingCorrectionLevel'', ''path'',
            ''row'', ''acquisitionYear'', ''acquisitionMonth'', ''acquisitionDay'',
            ''processingYear'', ''processingMonth'', ''processingDay'', ''collectionNumber'',
            ''collectionCategory'', ''instrument''] @ map fst [(''cloud'', ustr ''10'')])" by simp
  have a: "\<exists>r. landsat ?u ?s [(''cloud'', ustr ''10'')] = Inr r"
    using landsat_returns_iff[of ?u ?s "[(''cloud'', ustr ''10'')]"] m t d by blast
  let ?e = "76 # 201 # ustr ''08_L1TP_221069_20190103_20190103_01_T1''"
  have me: "re_match ?u landsat_pattern ?e \<noteq> None" by code_simp
  have te: "take 2 (drop 2 ?e) \<in> {ustr ''05'', ustr ''07'', ustr ''08''}" by (simp add: ustr_def)
  have de: "distinct ([''scene_id'', ''sensor'', ''satellite'', ''processingCorrectionLevel'', ''path'',
            ''row'', ''acquisitionYear'', ''acquisitionMonth'', ''acquisitionDay'',
            ''processingYear'', ''processingMonth'', ''processingDay'', ''collectionNumber'',
            ''collectionCategory'', ''instrument''] @ map fst ([] :: (string \<times> ustring) list))" by simp
  have e: "\<exists>r. landsat ?u ?e [] = Inr r"
    using landsat_returns_iff[of ?u ?e "[]"] me te de by blast
  let ?k = "ustr ''LC09_L1TP_221069_20190103_20190103_01_T1''"
  have mk: "re_match ?u landsat_pattern ?k \<noteq> None" by code_simp
  have tk: "take 2 (drop 2 ?k) \<notin> {ustr ''05'', ustr ''07'', ustr ''08''}" by (simp add: ustr_def)
  have b: "landsat ?u ?k [] = Inl KeyError"
    using landsat_returns_iff[of ?u ?k "[]"] mk tk by blast
  have mn: "re_match ?u landsat_pattern (ustr ''LC08_L1TP_221069'') = None" by code_simp
  have c: "landsat ?u (ustr ''LC08_L1TP_221069'') [] = Inl AttributeError"
    using landsat_returns_iff[of ?u "ustr ''LC08_L1TP_221069''" "[]"] mn by blast
  show ?thesis using a e b c by blast
qed

text \<open>
  Claim C10 as stated fails: a scene id that matches, with satellite \<^verbatim>\<open>08\<close>, returns no
  record when \<open>args\<close> carries a key of the parsed record; building the dictionary raises
  \<^verbatim>\<open>TypeError\<close>.
\<close>

theorem landsat_args_collision_counterexample:
  "re_match (\<lambda>c. c = 201) landsat_pattern (ustr ''LC08_L1TP_221069_20190103_20190103_01_T1'') \<noteq> None \<and>
   take 2 (drop 2 (ustr ''LC08_L1TP_221069_20190103_20190103_01_T1'')) = ustr ''08'' \<and>
   landsat (\<lambda>c. c = 201) (ustr ''LC08_L1TP_221069_20190103_20190103_01_T1'')
      [(''satellite'', ustr ''LANDSAT-8'')]
     = Inl TypeError"
  by code_simp

end
